theory Spec2Isabelle
  imports Main "HOL-Library.Char_ord" "HOL-Library.List_Lexorder" "HOL-Library.AList"
begin

section \<open>Platform values: errors, time values and ISO-8601 text\<close>

text \<open>
  The persistence layer is asynchronous TypeScript. A rejected promise or a thrown
  exception is modelled as the \<open>Inl\<close> branch of a sum; a promise that resolves as
  \<open>Inr\<close>. The errors are the ones the code and the platform calls it makes can produce.
\<close>

datatype error =
    Error string
  | RangeError
  | ReferenceError
  | DataError
  | NotFoundError
  | TypeError

text \<open>
  A JavaScript \<open>Date\<close> holds a time value: whole milliseconds since the epoch, at most
  8.64e15 in magnitude, or NaN (an invalid Date).
\<close>

datatype Date = Date int | Invalid_Date

definition maxTime :: int where
  "maxTime = 8640000000000000"

definition time_value :: "Date \<Rightarrow> int option" where
  "time_value d = (case d of
       Invalid_Date \<Rightarrow> None
     | Date t \<Rightarrow> if - maxTime \<le> t \<and> t \<le> maxTime then Some t else None)"

definition valid_Date :: "Date \<Rightarrow> bool" where
  "valid_Date d = (time_value d \<noteq> None)"

text \<open>The calendar arithmetic of ECMAScript (Day, DayFromYear, YearFromTime, ...).\<close>

definition msPerDay :: int where
  "msPerDay = 86400000"

definition Day :: "int \<Rightarrow> int" where
  "Day t = t div msPerDay"

definition TimeWithinDay :: "int \<Rightarrow> int" where
  "TimeWithinDay t = t mod msPerDay"

definition DaysInYear :: "int \<Rightarrow> int" where
  "DaysInYear y =
     (if y mod 4 \<noteq> 0 then 365 else if y mod 100 \<noteq> 0 then 366
      else if y mod 400 \<noteq> 0 then 365 else 366)"

definition DayFromYear :: "int \<Rightarrow> int" where
  "DayFromYear y =
     365 * (y - 1970) + (y - 1969) div 4 - (y - 1901) div 100 + (y - 1601) div 400"

text \<open>
  \<open>YearFromDay d\<close> is the year \<open>y\<close> with \<open>DayFromYear y \<le> d < DayFromYear (y + 1)\<close>
  (lemma \<open>YearFromDay_bounds\<close> below): an estimate from the mean length of a year,
  moved by one where it is off.
\<close>

definition YearFromDay :: "int \<Rightarrow> int" where
  "YearFromDay d =
     (let y = 1970 + (400 * d) div 146097 in
      if d < DayFromYear y then y - 1
      else if DayFromYear (y + 1) \<le> d then y + 1
      else y)"

definition YearFromTime :: "int \<Rightarrow> int" where
  "YearFromTime t = YearFromDay (Day t)"

definition InLeapYear :: "int \<Rightarrow> int" where
  "InLeapYear t = DaysInYear (YearFromTime t) - 365"

definition DayWithinYear :: "int \<Rightarrow> int" where
  "DayWithinYear t = Day t - DayFromYear (YearFromTime t)"

text \<open>\<open>MonthStart l m\<close>: the day within the year on which month \<open>m\<close> (0 to 12) starts.\<close>

definition MonthStart :: "int \<Rightarrow> int \<Rightarrow> int" where
  "MonthStart l m =
     (if m \<le> 0 then 0 else if m = 1 then 31 else if m = 2 then 59 + l
      else if m = 3 then 90 + l else if m = 4 then 120 + l else if m = 5 then 151 + l
      else if m = 6 then 181 + l else if m = 7 then 212 + l else if m = 8 then 243 + l
      else if m = 9 then 273 + l else if m = 10 then 304 + l else if m = 11 then 334 + l
      else 365 + l)"

definition MonthFromDay :: "int \<Rightarrow> int \<Rightarrow> int" where
  "MonthFromDay l d =
     (if d < 31 then 0 else if d < 59 + l then 1 else if d < 90 + l then 2
      else if d < 120 + l then 3 else if d < 151 + l then 4 else if d < 181 + l then 5
      else if d < 212 + l then 6 else if d < 243 + l then 7 else if d < 273 + l then 8
      else if d < 304 + l then 9 else if d < 334 + l then 10 else 11)"

definition MonthFromTime :: "int \<Rightarrow> int" where
  "MonthFromTime t = MonthFromDay (InLeapYear t) (DayWithinYear t)"

definition DateFromTime :: "int \<Rightarrow> int" where
  "DateFromTime t =
     DayWithinYear t - MonthStart (InLeapYear t) (MonthFromTime t) + 1"

definition HourFromTime :: "int \<Rightarrow> int" where
  "HourFromTime t = TimeWithinDay t div 3600000"

definition MinFromTime :: "int \<Rightarrow> int" where
  "MinFromTime t = (TimeWithinDay t div 60000) mod 60"

definition SecFromTime :: "int \<Rightarrow> int" where
  "SecFromTime t = (TimeWithinDay t div 1000) mod 60"

definition msFromTime :: "int \<Rightarrow> int" where
  "msFromTime t = TimeWithinDay t mod 1000"

text \<open>Decimal digits, zero-padded to a fixed width.\<close>

definition digit_char :: "nat \<Rightarrow> char" where
  "digit_char n = ''0123456789'' ! (n mod 10)"

fun pad :: "nat \<Rightarrow> nat \<Rightarrow> string" where
  "pad 0 n = []"
| "pad (Suc k) n = pad k (n div 10) @ [digit_char n]"

definition year_text :: "int \<Rightarrow> string" where
  "year_text y =
     (if 0 \<le> y \<and> y \<le> 9999 then pad 4 (nat y)
      else if 0 \<le> y then CHR ''+'' # pad 6 (nat y)
      else CHR ''-'' # pad 6 (nat (- y)))"

text \<open>
  \<open>Date.prototype.toISOString\<close>: \<open>YYYY-MM-DDTHH:mm:ss.sssZ\<close>, the year written with a sign
  and six digits outside 0000 to 9999; a RangeError on an invalid Date.
\<close>

definition iso_text :: "int \<Rightarrow> string" where
  "iso_text t =
     year_text (YearFromTime t) @ ''-'' @ pad 2 (nat (MonthFromTime t + 1)) @ ''-'' @
     pad 2 (nat (DateFromTime t)) @ ''T'' @ pad 2 (nat (HourFromTime t)) @ '':'' @
     pad 2 (nat (MinFromTime t)) @ '':'' @ pad 2 (nat (SecFromTime t)) @ ''.'' @
     pad 3 (nat (msFromTime t)) @ ''Z''"

definition toISOString :: "Date \<Rightarrow> error + string" where
  "toISOString d = (case time_value d of None \<Rightarrow> Inl RangeError | Some t \<Rightarrow> Inr (iso_text t))"

text \<open>
  \<open>new Date(text)\<close>. Of the formats \<open>Date.parse\<close> accepts, the model reads the complete
  date-time form that \<open>toISOString\<close> writes (which is all the layer ever stores); any
  other text gives an invalid Date. Nothing is raised either way.
\<close>

definition digit_val :: "char \<Rightarrow> nat option" where
  "digit_val c =
     (let n = (of_char c :: nat) in if 48 \<le> n \<and> n \<le> 57 then Some (n - 48) else None)"

fun digits_val :: "nat \<Rightarrow> string \<Rightarrow> nat option" where
  "digits_val acc [] = Some acc"
| "digits_val acc (c # cs) =
     (case digit_val c of None \<Rightarrow> None | Some v \<Rightarrow> digits_val (10 * acc + v) cs)"

definition number_at :: "nat \<Rightarrow> nat \<Rightarrow> string \<Rightarrow> int option" where
  "number_at i n s = map_option int (digits_val 0 (take n (drop i s)))"

definition MakeTime :: "int \<Rightarrow> int \<Rightarrow> int \<Rightarrow> int \<Rightarrow> int" where
  "MakeTime h m s ms = h * 3600000 + m * 60000 + s * 1000 + ms"

definition MakeDay :: "int \<Rightarrow> int \<Rightarrow> int \<Rightarrow> int" where
  "MakeDay y m d = DayFromYear y + MonthStart (DaysInYear y - 365) m + d - 1"

definition MakeDate :: "int \<Rightarrow> int \<Rightarrow> int" where
  "MakeDate day time = day * msPerDay + time"

definition parse_fields :: "int \<Rightarrow> string \<Rightarrow> int option" where
  "parse_fields y s =
     (case (number_at 1 2 s, number_at 4 2 s, number_at 7 2 s, number_at 10 2 s,
            number_at 13 2 s, number_at 16 3 s) of
        (Some mo, Some d, Some h, Some mi, Some sec, Some ms) \<Rightarrow>
          if length s = 20 \<and> s ! 0 = CHR ''-'' \<and> s ! 3 = CHR ''-'' \<and> s ! 6 = CHR ''T'' \<and>
             s ! 9 = CHR '':'' \<and> s ! 12 = CHR '':'' \<and> s ! 15 = CHR ''.'' \<and>
             s ! 19 = CHR ''Z'' \<and>
             1 \<le> mo \<and> mo \<le> 12 \<and> 1 \<le> d \<and>
             d \<le> MonthStart (DaysInYear y - 365) mo - MonthStart (DaysInYear y - 365) (mo - 1) \<and>
             h \<le> 23 \<and> mi \<le> 59 \<and> sec \<le> 59
          then Some (MakeDate (MakeDay y (mo - 1) d) (MakeTime h mi sec ms))
          else None
      | _ \<Rightarrow> None)"

definition Date_parse :: "string \<Rightarrow> int option" where
  "Date_parse s =
     (if length s = 24 then
        (case number_at 0 4 s of None \<Rightarrow> None | Some y \<Rightarrow> parse_fields y (drop 4 s))
      else if length s = 27 \<and> s ! 0 = CHR ''+'' then
        (case number_at 1 6 s of None \<Rightarrow> None | Some y \<Rightarrow> parse_fields y (drop 7 s))
      else if length s = 27 \<and> s ! 0 = CHR ''-'' then
        (case number_at 1 6 s of None \<Rightarrow> None
         | Some y \<Rightarrow> if y = 0 then None else parse_fields (- y) (drop 7 s))
      else None)"

definition new_Date :: "string \<Rightarrow> Date" where
  "new_Date s =
     (case Date_parse s of
        None \<Rightarrow> Invalid_Date
      | Some t \<Rightarrow> if - maxTime \<le> t \<and> t \<le> maxTime then Date t else Invalid_Date)"

text \<open>
  The time values whose year \<open>toISOString\<close> writes with four digits: from
  0000-01-01T00:00:00.000Z to 9999-12-31T23:59:59.999Z.
\<close>

definition four_digit_year :: "int \<Rightarrow> bool" where
  "four_digit_year t = (- 62167219200000 \<le> t \<and> t \<le> 253402300799999)"

section \<open>Domain entities\<close>

text \<open>
  The interfaces of \<open>core/domain\<close>. A \<open>number\<close> is carried through the layer unchanged,
  never computed with; it is modelled as an integer. Every stored object has an \<open>id\<close>
  (\<open>T extends { id: string }\<close>), so \<open>item\<close> is the root of the stored record types. An
  entity and its stored form have the same properties and differ in the type of the
  date-bearing ones (\<open>Date\<close> in memory, ISO text in storage): the type parameter \<open>'d\<close>.
\<close>

datatype WeightUnit = lbs | kg

datatype Theme = light | dark | system

record 'd UserSettings =
  dailyCalorieGoal :: int
  weightUnit :: WeightUnit
  theme :: Theme
  updatedAt :: 'd

record item =
  id' :: string

record 'd entity = item +
  name :: string
  date :: 'd
  createdAt :: 'd
  updatedAt :: 'd

record ExerciseSet = item +
  reps :: int
  weight :: int

record 'd Exercise = "'d entity" +
  sets :: "ExerciseSet list"
  "notes" :: "string option"

record NutritionInfo =
  calories :: int
  protein :: int
  carbs :: int
  fats :: int

datatype MealType = breakfast | lunch | dinner | snack

record 'd FoodEntry = "'d entity" +
  mealType :: MealType
  servingSize :: string
  servingMultiplier :: int
  nutrition :: NutritionInfo

definition DEFAULT_USER_SETTINGS :: "int \<Rightarrow> Date UserSettings" where
  \<comment> \<open>\<open>updatedAt: new Date()\<close> is evaluated once, when the module is loaded, at time \<open>loaded\<close>.\<close>
  "DEFAULT_USER_SETTINGS loaded =
     \<lparr>dailyCalorieGoal = 2000, weightUnit = lbs, theme = system,
      UserSettings.updatedAt = Date loaded\<rparr>"

text \<open>
  \<open>Partial<T>\<close>: every property optional. For the properties an entity type adds to
  \<open>entity\<close> (an exercise's sets and notes, a food entry's meal type ... nutrition),
  \<open>p_more\<close> is what the spread \<open>{...existing, ...updates}\<close> makes of them: the partial's
  value where it has the property, the existing one otherwise.
\<close>

record 'm partial_entity =
  p_id :: "string option"
  p_name :: "string option"
  p_date :: "Date option"
  p_createdAt :: "Date option"
  p_updatedAt :: "Date option"
  p_more :: "'m \<Rightarrow> 'm"

record partial_settings =
  p_dailyCalorieGoal :: "int option"
  p_weightUnit :: "WeightUnit option"
  p_theme :: "Theme option"
  p_settings_updatedAt :: "Date option"

section \<open>The runtime\<close>

text \<open>
  What the code probes of its runtime: whether \<open>window\<close> is defined (false when the
  module runs on the server) and whether the browser has IndexedDB.
\<close>

record env =
  window_defined :: bool
  indexedDB_in_window :: bool

definition browser :: env where
  "browser = \<lparr>window_defined = True, indexedDB_in_window = True\<rparr>"

definition browser_without_indexedDB :: env where
  "browser_without_indexedDB = \<lparr>window_defined = True, indexedDB_in_window = False\<rparr>"

definition server :: env where
  "server = \<lparr>window_defined = False, indexedDB_in_window = False\<rparr>"

definition STORES_EXERCISES :: string where
  "STORES_EXERCISES = ''exercises''"

definition STORES_FOODS :: string where
  "STORES_FOODS = ''foods''"

definition STORES_SETTINGS :: string where
  "STORES_SETTINGS = ''settings''"

section \<open>The durable backend: the IndexedDB wrapper\<close>

text \<open>
  An object store with key path \<open>id\<close> is the list of its records in ascending key order
  (the order in which IndexedDB returns them). Each function below takes the runtime,
  the store's name and the records of the store of that name, and returns what the
  promise settles to (and, for a write, the records afterwards).

  The platform calls are modelled by what the IndexedDB standard says of them:
  \<open>indexedDB.open\<close> is a ReferenceError where the global is missing;
  \<open>db.transaction\<close> and \<open>store.index\<close> throw NotFoundError for a name the schema does not
  declare; \<open>store.add\<close> fails (the request's \<open>onerror\<close>) when the key is present;
  \<open>IDBKeyRange.bound\<close> throws DataError when the lower bound is above the upper one; an
  index holds the records that have a value under its key path, ordered by that value
  and then by primary key. An exception thrown inside the promise's executor rejects
  the promise. Faults of the platform itself (a blocked or aborted transaction, an
  exhausted quota), which fire the other \<open>onerror\<close> handlers, are outside the model.
\<close>

definition isIndexedDBAvailable :: "env \<Rightarrow> bool" where
  "isIndexedDBAvailable env =
     (if \<not> window_defined env then False else indexedDB_in_window env)"

definition schema_indexes :: "string \<Rightarrow> string list option" where
  \<comment> \<open>the stores and indexes that \<open>onupgradeneeded\<close> creates\<close>
  "schema_indexes storeName =
     (if storeName = STORES_EXERCISES then Some [''name'', ''date'']
      else if storeName = STORES_FOODS then Some [''date'', ''mealType'', ''name'']
      else if storeName = STORES_SETTINGS then Some []
      else None)"

definition openDatabase :: "env \<Rightarrow> error + unit" where
  "openDatabase env =
     (if \<not> window_defined env
      then Inl (Error ''IndexedDB is not available in this environment'')
      else if \<not> indexedDB_in_window env then Inl ReferenceError
      else Inr ())"

definition transaction :: "env \<Rightarrow> string \<Rightarrow> error + string list" where
  \<comment> \<open>\<open>await openDatabase()\<close>, then \<open>db.transaction(storeName, mode).objectStore(storeName)\<close>:
      the indexes of the store\<close>
  "transaction env storeName =
     (case openDatabase env of
        Inl e \<Rightarrow> Inl e
      | Inr _ \<Rightarrow>
          (case schema_indexes storeName of None \<Rightarrow> Inl NotFoundError | Some ix \<Rightarrow> Inr ix))"

definition indexedDB_getById ::
  "env \<Rightarrow> string \<Rightarrow> 'a item_scheme list \<Rightarrow> string \<Rightarrow> error + 'a item_scheme option" where
  "indexedDB_getById env storeName store i =
     (case transaction env storeName of
        Inl e \<Rightarrow> Inl e
      | Inr _ \<Rightarrow> Inr (find (\<lambda>r. id' r = i) store))"

definition indexedDB_getAll ::
  "env \<Rightarrow> string \<Rightarrow> 'a item_scheme list \<Rightarrow> error + 'a item_scheme list" where
  "indexedDB_getAll env storeName store =
     (case transaction env storeName of Inl e \<Rightarrow> Inl e | Inr _ \<Rightarrow> Inr store)"

definition indexedDB_add ::
  "env \<Rightarrow> string \<Rightarrow> 'a item_scheme list \<Rightarrow> 'a item_scheme \<Rightarrow>
   (error + 'a item_scheme) \<times> 'a item_scheme list" where
  "indexedDB_add env storeName store x =
     (case transaction env storeName of
        Inl e \<Rightarrow> (Inl e, store)
      | Inr _ \<Rightarrow>
          if find (\<lambda>r. id' r = id' x) store \<noteq> None
          then (Inl (Error (''Failed to add item to '' @ storeName)), store)
          else (Inr x, insort_key id' x store))"

definition indexedDB_update ::
  "env \<Rightarrow> string \<Rightarrow> 'a item_scheme list \<Rightarrow> 'a item_scheme \<Rightarrow>
   (error + 'a item_scheme) \<times> 'a item_scheme list" where
  \<comment> \<open>\<open>store.put\<close>: replaces the record of the same key, or inserts\<close>
  "indexedDB_update env storeName store x =
     (case transaction env storeName of
        Inl e \<Rightarrow> (Inl e, store)
      | Inr _ \<Rightarrow> (Inr x, insort_key id' x (filter (\<lambda>r. id' r \<noteq> id' x) store)))"

definition indexedDB_deleteById ::
  "env \<Rightarrow> string \<Rightarrow> 'a item_scheme list \<Rightarrow> string \<Rightarrow> (error + unit) \<times> 'a item_scheme list" where
  "indexedDB_deleteById env storeName store i =
     (case transaction env storeName of
        Inl e \<Rightarrow> (Inl e, store)
      | Inr _ \<Rightarrow> (Inr (), filter (\<lambda>r. id' r \<noteq> i) store))"

text \<open>
  \<open>prop r n\<close> stands for the property read \<open>r[n]\<close> of a stored object, for the
  properties that hold text (the only ones the schema indexes).
\<close>

definition index_key :: "('r \<Rightarrow> string \<Rightarrow> string option) \<Rightarrow> string \<Rightarrow> 'r \<Rightarrow> string" where
  "index_key prop n r = (case prop r n of None \<Rightarrow> [] | Some k \<Rightarrow> k)"

definition indexedDB_getByIndex ::
  "env \<Rightarrow> string \<Rightarrow> ('r \<Rightarrow> string \<Rightarrow> string option) \<Rightarrow> 'r list \<Rightarrow> string \<Rightarrow> string \<Rightarrow>
   error + 'r list" where
  "indexedDB_getByIndex env storeName prop store indexName v =
     (case transaction env storeName of
        Inl e \<Rightarrow> Inl e
      | Inr ix \<Rightarrow>
          if indexName \<notin> set ix then Inl NotFoundError
          else Inr (filter (\<lambda>r. prop r indexName = Some v) store))"

definition indexedDB_getByIndexRange ::
  "env \<Rightarrow> string \<Rightarrow> ('r \<Rightarrow> string \<Rightarrow> string option) \<Rightarrow> 'r list \<Rightarrow> string \<Rightarrow> string \<Rightarrow>
   string \<Rightarrow> error + 'r list" where
  "indexedDB_getByIndexRange env storeName prop store indexName lowerBound upperBound =
     (case transaction env storeName of
        Inl e \<Rightarrow> Inl e
      | Inr ix \<Rightarrow>
          if indexName \<notin> set ix then Inl NotFoundError
          else if upperBound < lowerBound then Inl DataError
          else Inr (sort_key (index_key prop indexName)
                 (filter (\<lambda>r. case prop r indexName of
                               None \<Rightarrow> False
                             | Some k \<Rightarrow> lowerBound \<le> k \<and> k \<le> upperBound) store)))"

definition indexedDB_clearStore ::
  "env \<Rightarrow> string \<Rightarrow> 'r list \<Rightarrow> (error + unit) \<times> 'r list" where
  "indexedDB_clearStore env storeName store =
     (case transaction env storeName of Inl e \<Rightarrow> (Inl e, store) | Inr _ \<Rightarrow> (Inr (), []))"

section \<open>The degraded backend: the localStorage wrapper\<close>

text \<open>
  \<open>localStorage\<close> holds one text per store, under the key \<open>fitness-tracker:<store>\<close>.
  The text is modelled by what \<open>JSON.parse\<close> makes of it: \<open>Unparseable\<close> when it throws,
  \<open>JSON_null\<close> when it gives \<open>null\<close>, \<open>JSON\<close> of the object's own properties (identifier
  and record, in the order \<open>Object.values\<close> lists them) when it gives an object of
  records, as \<open>JSON.stringify\<close> writes one. Text that parses to any other value (a number,
  a string, an array, an object whose properties are not records) has no counterpart
  among the typed records and is outside the model. A record is plain JSON data (text,
  numbers, lists, nested records), as the repositories serialize theirs, so
  \<open>JSON.stringify\<close> followed by \<open>JSON.parse\<close> gives it back unchanged; a new property is
  listed last, as it is for an identifier that is not an array index (the application's
  are UUIDs). \<open>localStorage.getItem\<close> gives \<open>None\<close>
  (\<open>null\<close>) where the key is not set. Each function takes the runtime and the item under
  the store's key; a write returns the item afterwards.

  The object \<open>getStoreData\<close> returns is a plain object, so a property read \<open>data[k]\<close> that
  finds no own property finds the member of \<open>Object.prototype\<close> of that name, if there is
  one. Of these members only \<open>__proto__\<close> has a setter: the assignment
  \<open>data['__proto__'] = item\<close> on an object without that own property changes the
  object's prototype and adds no property, so \<open>JSON.stringify\<close> writes the object as it
  was; every other assignment makes or replaces an own property. \<open>null[k]\<close>,
  \<open>Object.values(null)\<close> and \<open>delete null[k]\<close> throw a TypeError.
\<close>

datatype 'r storage_text = Unparseable string | JSON_null | JSON "(string \<times> 'r) list"

datatype 'r property = Own 'r | Inherited string

definition Object_prototype_members :: "string list" where
  "Object_prototype_members =
     [''constructor'', ''__defineGetter__'', ''__defineSetter__'', ''hasOwnProperty'',
      ''__lookupGetter__'', ''__lookupSetter__'', ''isPrototypeOf'', ''propertyIsEnumerable'',
      ''toString'', ''valueOf'', ''__proto__'', ''toLocaleString'']"

definition read_property :: "(string \<times> 'r) list \<Rightarrow> string \<Rightarrow> 'r property option" where
  \<comment> \<open>\<open>data[k]\<close>; \<open>None\<close> is \<open>undefined\<close>\<close>
  "read_property d k =
     (case map_of d k of
        Some r \<Rightarrow> Some (Own r)
      | None \<Rightarrow> if k \<in> set Object_prototype_members then Some (Inherited k) else None)"

definition write_property :: "(string \<times> 'r) list \<Rightarrow> string \<Rightarrow> 'r \<Rightarrow> (string \<times> 'r) list" where
  \<comment> \<open>\<open>data[k] = v\<close>, as far as \<open>JSON.stringify(data)\<close> shows it\<close>
  "write_property d k v =
     (if k = ''__proto__'' \<and> map_of d k = None then d else AList.update k v d)"

definition getStoreData :: "env \<Rightarrow> 'r storage_text option \<Rightarrow> (string \<times> 'r) list option" where
  \<comment> \<open>the object returned; \<open>None\<close> is \<open>null\<close>\<close>
  "getStoreData env stored =
     (if \<not> window_defined env then Some []
      else case stored of
             None \<Rightarrow> Some []
           | Some (Unparseable _) \<Rightarrow> Some []
           | Some JSON_null \<Rightarrow> None
           | Some (JSON d) \<Rightarrow> Some d)"

definition setStoreData ::
  "env \<Rightarrow> 'r storage_text option \<Rightarrow> (string \<times> 'r) list \<Rightarrow> 'r storage_text option" where
  "setStoreData env stored d = (if \<not> window_defined env then stored else Some (JSON d))"

definition localStorage_getById ::
  "env \<Rightarrow> 'r storage_text option \<Rightarrow> string \<Rightarrow> error + 'r property option" where
  "localStorage_getById env stored i =
     (case getStoreData env stored of
        None \<Rightarrow> Inl TypeError
      | Some d \<Rightarrow> Inr (read_property d i))"

definition localStorage_getAll :: "env \<Rightarrow> 'r storage_text option \<Rightarrow> error + 'r list" where
  "localStorage_getAll env stored =
     (case getStoreData env stored of
        None \<Rightarrow> Inl TypeError
      | Some d \<Rightarrow> Inr (map snd d))"

definition localStorage_add ::
  "env \<Rightarrow> 'a item_scheme storage_text option \<Rightarrow> 'a item_scheme \<Rightarrow>
   (error + 'a item_scheme) \<times> 'a item_scheme storage_text option" where
  "localStorage_add env stored x =
     (case getStoreData env stored of
        None \<Rightarrow> (Inl TypeError, stored)
      | Some d \<Rightarrow>
          if read_property d (id' x) \<noteq> None
          then (Inl (Error (''Item with id '' @ id' x @ '' already exists'')), stored)
          else (Inr x, setStoreData env stored (write_property d (id' x) x)))"



definition localStorage_getByIndex ::
  "env \<Rightarrow> ('r \<Rightarrow> string \<Rightarrow> string option) \<Rightarrow> 'r storage_text option \<Rightarrow> string \<Rightarrow> string \<Rightarrow>
   error + 'r list" where
  "localStorage_getByIndex env prop stored indexName v =
     (case localStorage_getAll env stored of
        Inl e \<Rightarrow> Inl e
      | Inr items \<Rightarrow> Inr (filter (\<lambda>r. prop r indexName = Some v) items))"

definition localStorage_getByIndexRange ::
  "env \<Rightarrow> ('r \<Rightarrow> string \<Rightarrow> string option) \<Rightarrow> 'r storage_text option \<Rightarrow> string \<Rightarrow> string \<Rightarrow>
   string \<Rightarrow> error + 'r list" where
  \<comment> \<open>\<open>undefined >= lower\<close> is false: a record without the property is left out\<close>
  "localStorage_getByIndexRange env prop stored indexName lowerBound upperBound =
     (case localStorage_getAll env stored of
        Inl e \<Rightarrow> Inl e
      | Inr items \<Rightarrow>
          Inr (filter (\<lambda>r. case prop r indexName of
                             None \<Rightarrow> False
                           | Some k \<Rightarrow> lowerBound \<le> k \<and> k \<le> upperBound) items))"


definition isLocalStorageAvailable :: "env \<Rightarrow> bool" where
  "isLocalStorageAvailable env = (if \<not> window_defined env then False else True)"

section \<open>The entity repositories\<close>

text \<open>
  Every repository module has \<open>import * as db from './indexedDB'\<close>: its methods call the
  functions of the durable backend, whatever the runtime offers.

  \<open>ExerciseRepository\<close> and \<open>FoodRepository\<close> have the same text for \<open>serialize\<close>,
  \<open>deserialize\<close>, \<open>getAll\<close>, \<open>getByDateRange\<close>, \<open>getById\<close>, \<open>create\<close>, \<open>update\<close> and
  \<open>delete\<close>, up to the store's name, the entity type and the wording of one message.
  Each is modelled once, for any entity type, with the store's name as a parameter.
  The spread \<open>{...x}\<close> copies the properties it does not name: \<open>entity.more\<close>.
\<close>

definition serialize :: "(Date, 'm) entity_scheme \<Rightarrow> error + (string, 'm) entity_scheme" where
  "serialize e =
     (case toISOString (date e) of
        Inl err \<Rightarrow> Inl err
      | Inr d \<Rightarrow>
          (case toISOString (createdAt e) of
             Inl err \<Rightarrow> Inl err
           | Inr c \<Rightarrow>
               (case toISOString (updatedAt e) of
                  Inl err \<Rightarrow> Inl err
                | Inr u \<Rightarrow>
                    Inr \<lparr>id' = id' e, name = name e, date = d, createdAt = c, updatedAt = u,
                         \<dots> = entity.more e\<rparr>)))"

definition deserialize :: "(string, 'm) entity_scheme \<Rightarrow> (Date, 'm) entity_scheme" where
  "deserialize r =
     \<lparr>id' = id' r, name = name r, date = new_Date (date r),
      createdAt = new_Date (createdAt r), updatedAt = new_Date (updatedAt r),
      \<dots> = entity.more r\<rparr>"

definition entity_prop :: "(string, 'm) entity_scheme \<Rightarrow> string \<Rightarrow> string option" where
  \<comment> \<open>the property read \<open>r[n]\<close> on a stored entity, for the properties every entity has\<close>
  "entity_prop r n =
     (if n = ''id'' then Some (id' r) else if n = ''name'' then Some (name r)
      else if n = ''date'' then Some (date r) else if n = ''createdAt'' then Some (createdAt r)
      else if n = ''updatedAt'' then Some (updatedAt r) else None)"



text \<open>
  \<open>startOfDay\<close> and \<open>endOfDay\<close> come from the package date-fns and work in the local
  time zone of the runtime. They are modelled for a zone that is \<open>tz\<close> milliseconds
  ahead of UTC throughout the days concerned.
\<close>

definition startOfDay :: "int \<Rightarrow> Date \<Rightarrow> Date" where
  "startOfDay tz d =
     (case time_value d of
        None \<Rightarrow> Invalid_Date
      | Some t \<Rightarrow> Date (t - (t + tz) mod msPerDay))"

definition endOfDay :: "int \<Rightarrow> Date \<Rightarrow> Date" where
  "endOfDay tz d =
     (case time_value d of
        None \<Rightarrow> Invalid_Date
      | Some t \<Rightarrow> Date (t - (t + tz) mod msPerDay + msPerDay - 1))"

definition Repository_getAll ::
  "env \<Rightarrow> string \<Rightarrow> (string, 'm) entity_scheme list \<Rightarrow> error + (Date, 'm) entity_scheme list" where
  "Repository_getAll env storeName store =
     (case indexedDB_getAll env storeName store of
        Inl e \<Rightarrow> Inl e
      | Inr items \<Rightarrow> Inr (map deserialize items))"

definition Repository_getByDateRange ::
  "env \<Rightarrow> int \<Rightarrow> string \<Rightarrow> (string, 'm) entity_scheme list \<Rightarrow> Date \<Rightarrow> Date \<Rightarrow>
   error + (Date, 'm) entity_scheme list" where
  "Repository_getByDateRange env tz storeName store startDate endDate =
     (case toISOString (startOfDay tz startDate) of
        Inl e \<Rightarrow> Inl e
      | Inr start \<Rightarrow>
          (case toISOString (endOfDay tz endDate) of
             Inl e \<Rightarrow> Inl e
           | Inr end' \<Rightarrow>
               (case indexedDB_getByIndexRange env storeName entity_prop store ''date'' start end' of
                  Inl e \<Rightarrow> Inl e
                | Inr items \<Rightarrow> Inr (map deserialize items))))"

definition Repository_getByName ::
  "env \<Rightarrow> string \<Rightarrow> (string, 'm) entity_scheme list \<Rightarrow> string \<Rightarrow>
   error + (Date, 'm) entity_scheme list" where
  "Repository_getByName env storeName store n =
     (case indexedDB_getByIndex env storeName entity_prop store ''name'' n of
        Inl e \<Rightarrow> Inl e
      | Inr items \<Rightarrow> Inr (map deserialize items))"

definition Repository_getById ::
  "env \<Rightarrow> string \<Rightarrow> (string, 'm) entity_scheme list \<Rightarrow> string \<Rightarrow>
   error + (Date, 'm) entity_scheme option" where
  "Repository_getById env storeName store i =
     (case indexedDB_getById env storeName store i of
        Inl e \<Rightarrow> Inl e
      | Inr None \<Rightarrow> Inr None
      | Inr (Some x) \<Rightarrow> Inr (Some (deserialize x)))"

definition Repository_create ::
  "env \<Rightarrow> string \<Rightarrow> (string, 'm) entity_scheme list \<Rightarrow> (Date, 'm) entity_scheme \<Rightarrow>
   (error + (Date, 'm) entity_scheme) \<times> (string, 'm) entity_scheme list" where
  "Repository_create env storeName store e =
     (case serialize e of
        Inl err \<Rightarrow> (Inl err, store)
      | Inr serialized \<Rightarrow>
          (case indexedDB_add env storeName store serialized of
             (Inl err, store') \<Rightarrow> (Inl err, store')
           | (Inr _, store') \<Rightarrow> (Inr e, store')))"

definition Repository_update ::
  "string \<Rightarrow> env \<Rightarrow> int \<Rightarrow> string \<Rightarrow> (string, 'm) entity_scheme list \<Rightarrow> string \<Rightarrow>
   'm partial_entity \<Rightarrow>
   (error + (Date, 'm) entity_scheme) \<times> (string, 'm) entity_scheme list" where
  \<comment> \<open>\<open>kind\<close> is the word the message starts with; \<open>now\<close> is what \<open>new Date()\<close> reads\<close>
  "Repository_update kind env now storeName store i updates =
     (case Repository_getById env storeName store i of
        Inl err \<Rightarrow> (Inl err, store)
      | Inr None \<Rightarrow> (Inl (Error (kind @ '' with id '' @ i @ '' not found'')), store)
      | Inr (Some existing) \<Rightarrow>
          (let updated =
                 \<lparr>id' = i,
                  name = (case p_name updates of None \<Rightarrow> name existing | Some v \<Rightarrow> v),
                  date = (case p_date updates of None \<Rightarrow> date existing | Some v \<Rightarrow> v),
                  createdAt =
                    (case p_createdAt updates of None \<Rightarrow> createdAt existing | Some v \<Rightarrow> v),
                  updatedAt = Date now,
                  \<dots> = p_more updates (entity.more existing)\<rparr>
           in case serialize updated of
                Inl err \<Rightarrow> (Inl err, store)
              | Inr serialized \<Rightarrow>
                  (case indexedDB_update env storeName store serialized of
                     (Inl err, store') \<Rightarrow> (Inl err, store')
                   | (Inr _, store') \<Rightarrow> (Inr updated, store'))))"

definition Repository_delete ::
  "env \<Rightarrow> string \<Rightarrow> (string, 'm) entity_scheme list \<Rightarrow> string \<Rightarrow>
   (error + unit) \<times> (string, 'm) entity_scheme list" where
  "Repository_delete env storeName store i = indexedDB_deleteById env storeName store i"

definition ExerciseRepository_create ::
  "env \<Rightarrow> string Exercise list \<Rightarrow> Date Exercise \<Rightarrow> (error + Date Exercise) \<times> string Exercise list" where
  "ExerciseRepository_create env store e = Repository_create env STORES_EXERCISES store e"

definition ExerciseRepository_getAll ::
  "env \<Rightarrow> string Exercise list \<Rightarrow> error + Date Exercise list" where
  "ExerciseRepository_getAll env store = Repository_getAll env STORES_EXERCISES store"

definition ExerciseRepository_getById ::
  "env \<Rightarrow> string Exercise list \<Rightarrow> string \<Rightarrow> error + Date Exercise option" where
  "ExerciseRepository_getById env store i = Repository_getById env STORES_EXERCISES store i"


definition ExerciseRepository_update ::
  "env \<Rightarrow> int \<Rightarrow> string Exercise list \<Rightarrow> string \<Rightarrow> _ partial_entity \<Rightarrow>
   (error + Date Exercise) \<times> string Exercise list" where
  "ExerciseRepository_update env now store i updates =
     Repository_update ''Exercise'' env now STORES_EXERCISES store i updates"

definition FoodRepository_create ::
  "env \<Rightarrow> string FoodEntry list \<Rightarrow> Date FoodEntry \<Rightarrow> (error + Date FoodEntry) \<times> string FoodEntry list" where
  "FoodRepository_create env store e = Repository_create env STORES_FOODS store e"

definition FoodRepository_getAll ::
  "env \<Rightarrow> string FoodEntry list \<Rightarrow> error + Date FoodEntry list" where
  "FoodRepository_getAll env store = Repository_getAll env STORES_FOODS store"

definition FoodRepository_getById ::
  "env \<Rightarrow> string FoodEntry list \<Rightarrow> string \<Rightarrow> error + Date FoodEntry option" where
  "FoodRepository_getById env store i = Repository_getById env STORES_FOODS store i"

definition FoodRepository_getByDateRange ::
  "env \<Rightarrow> int \<Rightarrow> string FoodEntry list \<Rightarrow> Date \<Rightarrow> Date \<Rightarrow> error + Date FoodEntry list" where
  "FoodRepository_getByDateRange env tz store startDate endDate =
     Repository_getByDateRange env tz STORES_FOODS store startDate endDate"

definition FoodRepository_update ::
  "env \<Rightarrow> int \<Rightarrow> string FoodEntry list \<Rightarrow> string \<Rightarrow> _ partial_entity \<Rightarrow>
   (error + Date FoodEntry) \<times> string FoodEntry list" where
  "FoodRepository_update env now store i updates =
     Repository_update ''Food entry'' env now STORES_FOODS store i updates"

subsection \<open>The settings repository\<close>

text \<open>
  The stored settings object is the settings with an \<open>id\<close> in front:
  \<open>{id: SETTINGS_ID, ...settings, updatedAt: ...}\<close>.

  \<open>get\<close> calls \<open>update\<close> and \<open>update\<close> calls \<open>get\<close>, so the two are defined together, with
  a bound on the depth of the calls: \<open>None\<close> is a call that has not returned within it.
\<close>

definition SETTINGS_ID :: string where
  "SETTINGS_ID = ''user-settings''"

definition settings_serialize :: "Date UserSettings \<Rightarrow> error + string UserSettings item_scheme" where
  "settings_serialize settings =
     (case toISOString (UserSettings.updatedAt settings) of
        Inl err \<Rightarrow> Inl err
      | Inr u \<Rightarrow>
          Inr \<lparr>id' = SETTINGS_ID,
               \<dots> = \<lparr>dailyCalorieGoal = dailyCalorieGoal settings,
                      weightUnit = weightUnit settings, theme = theme settings,
                      UserSettings.updatedAt = u\<rparr>\<rparr>)"

definition settings_deserialize :: "string UserSettings item_scheme \<Rightarrow> Date UserSettings" where
  "settings_deserialize d =
     \<lparr>dailyCalorieGoal = dailyCalorieGoal (item.more d),
      weightUnit = weightUnit (item.more d),
      theme = theme (item.more d),
      UserSettings.updatedAt = new_Date (UserSettings.updatedAt (item.more d))\<rparr>"

definition as_partial :: "Date UserSettings \<Rightarrow> partial_settings" where
  \<comment> \<open>a whole settings object passed where a \<open>Partial<UserSettings>\<close> is expected\<close>
  "as_partial s =
     \<lparr>p_dailyCalorieGoal = Some (dailyCalorieGoal s), p_weightUnit = Some (weightUnit s),
      p_theme = Some (theme s), p_settings_updatedAt = Some (UserSettings.updatedAt s)\<rparr>"

fun UserSettingsRepository_get ::
      "nat \<Rightarrow> env \<Rightarrow> int \<Rightarrow> int \<Rightarrow> string UserSettings item_scheme list \<Rightarrow>
       ((error + Date UserSettings) \<times> string UserSettings item_scheme list) option"
  and UserSettingsRepository_update ::
      "nat \<Rightarrow> env \<Rightarrow> int \<Rightarrow> int \<Rightarrow> string UserSettings item_scheme list \<Rightarrow> partial_settings \<Rightarrow>
       ((error + Date UserSettings) \<times> string UserSettings item_scheme list) option"
where
  "UserSettingsRepository_get 0 env loaded now store = None"
| "UserSettingsRepository_get (Suc depth) env loaded now store =
     (case indexedDB_getById env STORES_SETTINGS store SETTINGS_ID of
        Inl err \<Rightarrow> Some (Inl err, store)
      | Inr None \<Rightarrow>
          (case UserSettingsRepository_update depth env loaded now store
                  (as_partial (DEFAULT_USER_SETTINGS loaded)) of
             None \<Rightarrow> None
           | Some (Inl err, store') \<Rightarrow> Some (Inl err, store')
           | Some (Inr _, store') \<Rightarrow> Some (Inr (DEFAULT_USER_SETTINGS loaded), store'))
      | Inr (Some x) \<Rightarrow> Some (Inr (settings_deserialize x), store))"
| "UserSettingsRepository_update 0 env loaded now store settings = None"
| "UserSettingsRepository_update (Suc depth) env loaded now store settings =
     (case UserSettingsRepository_get depth env loaded now store of
        None \<Rightarrow> None
      | Some (Inl err, store') \<Rightarrow> Some (Inl err, store')
      | Some (Inr existing, store') \<Rightarrow>
          (let updated =
                 \<lparr>dailyCalorieGoal =
                    (case p_dailyCalorieGoal settings of
                       None \<Rightarrow> dailyCalorieGoal existing | Some v \<Rightarrow> v),
                  weightUnit =
                    (case p_weightUnit settings of None \<Rightarrow> weightUnit existing | Some v \<Rightarrow> v),
                  theme = (case p_theme settings of None \<Rightarrow> theme existing | Some v \<Rightarrow> v),
                  UserSettings.updatedAt = Date now\<rparr>
           in case settings_serialize updated of
                Inl err \<Rightarrow> Some (Inl err, store')
              | Inr serialized \<Rightarrow>
                  (case indexedDB_update env STORES_SETTINGS store' serialized of
                     (Inl err, store'') \<Rightarrow> Some (Inl err, store'')
                   | (Inr _, store'') \<Rightarrow> Some (Inr updated, store''))))"

definition UserSettingsRepository_reset ::
  "env \<Rightarrow> int \<Rightarrow> int \<Rightarrow> string UserSettings item_scheme list \<Rightarrow>
   (error + Date UserSettings) \<times> string UserSettings item_scheme list" where
  "UserSettingsRepository_reset env loaded now store =
     (let defaultSettings = (DEFAULT_USER_SETTINGS loaded)\<lparr>UserSettings.updatedAt := Date now\<rparr>
      in case settings_serialize defaultSettings of
           Inl err \<Rightarrow> (Inl err, store)
         | Inr serialized \<Rightarrow>
             (case indexedDB_update env STORES_SETTINGS store serialized of
                (Inl err, store') \<Rightarrow> (Inl err, store')
              | (Inr _, store') \<Rightarrow> (Inr defaultSettings, store')))"

section \<open>The data export repository\<close>

text \<open>
  The durable database of the application: its three object stores.
\<close>

record world =
  EXERCISES :: "string Exercise list"
  FOODS :: "string FoodEntry list"
  SETTINGS :: "string UserSettings item_scheme list"

text \<open>
  \<open>ExportData\<close> declares \<open>exercises\<close> and \<open>foods\<close> as \<open>unknown[]\<close> and \<open>settings\<close> as
  \<open>unknown\<close>; \<open>importData\<close> tests the first two with \<open>Array.isArray\<close> and the third for
  truthiness (\<open>None\<close>: absent or falsy).
\<close>

datatype 'a json_array = Not_an_array | Array "'a list"

record ExportData =
  exercises :: "string Exercise json_array"
  foods :: "string FoodEntry json_array"
  settings :: "string UserSettings option"
  exportedAt :: string
  version :: string

definition EXPORT_VERSION :: string where
  "EXPORT_VERSION = ''1.0.0''"

fun map_result :: "('a \<Rightarrow> error + 'b) \<Rightarrow> 'a list \<Rightarrow> error + 'b list" where
  \<comment> \<open>\<open>xs.map(f)\<close> where \<open>f\<close> may throw: the first exception ends the map\<close>
  "map_result f [] = Inr []"
| "map_result f (x # xs) =
     (case f x of
        Inl e \<Rightarrow> Inl e
      | Inr y \<Rightarrow> (case map_result f xs of Inl e \<Rightarrow> Inl e | Inr ys \<Rightarrow> Inr (y # ys)))"

definition clearAllData :: "env \<Rightarrow> world \<Rightarrow> (error + unit) \<times> world" where
  \<comment> \<open>\<open>Promise.all\<close> of the three clears: each runs; the first rejection rejects the whole\<close>
  "clearAllData env w =
     (case indexedDB_clearStore env STORES_EXERCISES (EXERCISES w) of (r1, s1) \<Rightarrow>
      case indexedDB_clearStore env STORES_FOODS (FOODS w) of (r2, s2) \<Rightarrow>
      case indexedDB_clearStore env STORES_SETTINGS (SETTINGS w) of (r3, s3) \<Rightarrow>
        ((case r1 of Inl e \<Rightarrow> Inl e
          | Inr _ \<Rightarrow> (case r2 of Inl e \<Rightarrow> Inl e
                     | Inr _ \<Rightarrow> (case r3 of Inl e \<Rightarrow> Inl e | Inr _ \<Rightarrow> Inr ()))),
         \<lparr>EXERCISES = s1, FOODS = s2, SETTINGS = s3\<rparr>))"

text \<open>
  The objects \<open>exportData\<close> maps the entities to, \<open>{...e, date: e.date.toISOString(), ...}\<close>,
  are the ones \<open>serialize\<close> builds; the objects \<open>importData\<close> builds from the snapshot,
  \<open>{...ex, date: new Date(ex.date), ...}\<close>, are the ones \<open>deserialize\<close> builds.
\<close>

definition exportData ::
  "nat \<Rightarrow> env \<Rightarrow> int \<Rightarrow> int \<Rightarrow> world \<Rightarrow> ((error + ExportData) \<times> world) option" where
  "exportData depth env loaded now w =
     (case ExerciseRepository_getAll env (EXERCISES w) of
        Inl e \<Rightarrow> Some (Inl e, w)
      | Inr es \<Rightarrow>
     (case FoodRepository_getAll env (FOODS w) of
        Inl e \<Rightarrow> Some (Inl e, w)
      | Inr fs \<Rightarrow>
     (case UserSettingsRepository_get depth env loaded now (SETTINGS w) of
        None \<Rightarrow> None
      | Some (Inl e, st) \<Rightarrow> Some (Inl e, w\<lparr>SETTINGS := st\<rparr>)
      | Some (Inr s, st) \<Rightarrow>
          Some
            ((case map_result serialize es of
                Inl e \<Rightarrow> Inl e
              | Inr es' \<Rightarrow>
             (case map_result serialize fs of
                Inl e \<Rightarrow> Inl e
              | Inr fs' \<Rightarrow>
             (case toISOString (UserSettings.updatedAt s) of
                Inl e \<Rightarrow> Inl e
              | Inr u \<Rightarrow>
             (case toISOString (Date now) of
                Inl e \<Rightarrow> Inl e
              | Inr stamp \<Rightarrow>
                  Inr \<lparr>exercises = Array es', foods = Array fs',
                       settings =
                         Some \<lparr>dailyCalorieGoal = dailyCalorieGoal s, weightUnit = weightUnit s,
                               theme = theme s, UserSettings.updatedAt = u\<rparr>,
                       exportedAt = stamp, version = EXPORT_VERSION\<rparr>)))),
             w\<lparr>SETTINGS := st\<rparr>))))"

fun import_entities ::
  "env \<Rightarrow> string \<Rightarrow> (string, 'm) entity_scheme list \<Rightarrow> (string, 'm) entity_scheme list \<Rightarrow>
   (error + unit) \<times> (string, 'm) entity_scheme list" where
  \<comment> \<open>the loop \<open>for (const x of data.xs) { await repo.create({...}) }\<close>\<close>
  "import_entities env storeName store [] = (Inr (), store)"
| "import_entities env storeName store (x # xs) =
     (case Repository_create env storeName store (deserialize x) of
        (Inl e, store') \<Rightarrow> (Inl e, store')
      | (Inr _, store') \<Rightarrow> import_entities env storeName store' xs)"

definition import_section ::
  "env \<Rightarrow> string \<Rightarrow> (string, 'm) entity_scheme list \<Rightarrow> (string, 'm) entity_scheme json_array \<Rightarrow>
   (error + unit) \<times> (string, 'm) entity_scheme list" where
  \<comment> \<open>\<open>if (Array.isArray(data.xs)) { ... }\<close>\<close>
  "import_section env storeName store xs =
     (case xs of
        Not_an_array \<Rightarrow> (Inr (), store)
      | Array l \<Rightarrow> import_entities env storeName store l)"

definition importData ::
  "nat \<Rightarrow> env \<Rightarrow> int \<Rightarrow> int \<Rightarrow> world \<Rightarrow> ExportData \<Rightarrow> ((error + unit) \<times> world) option" where
  \<comment> \<open>the \<open>console.warn\<close> on a differing version touches neither the stores nor the result\<close>
  "importData depth env loaded now w d =
     (case clearAllData env w of
        (Inl e, w1) \<Rightarrow> Some (Inl e, w1)
      | (Inr _, w1) \<Rightarrow>
     (case import_section env STORES_EXERCISES (EXERCISES w1) (exercises d) of
        (Inl e, s) \<Rightarrow> Some (Inl e, w1\<lparr>EXERCISES := s\<rparr>)
      | (Inr _, s) \<Rightarrow>
     (case import_section env STORES_FOODS (FOODS w1) (foods d) of
        (Inl e, s') \<Rightarrow> Some (Inl e, w1\<lparr>EXERCISES := s, FOODS := s'\<rparr>)
      | (Inr _, s') \<Rightarrow>
     (case settings d of
        None \<Rightarrow> Some (Inr (), w1\<lparr>EXERCISES := s, FOODS := s'\<rparr>)
      | Some sd \<Rightarrow>
          (case UserSettingsRepository_update depth env loaded now (SETTINGS w1)
                  \<lparr>p_dailyCalorieGoal = Some (dailyCalorieGoal sd),
                   p_weightUnit = Some (weightUnit sd), p_theme = Some (theme sd),
                   p_settings_updatedAt = Some (new_Date (UserSettings.updatedAt sd))\<rparr> of
             None \<Rightarrow> None
           | Some (Inl e, st) \<Rightarrow> Some (Inl e, \<lparr>EXERCISES = s, FOODS = s', SETTINGS = st\<rparr>)
           | Some (Inr _, st) \<Rightarrow> Some (Inr (), \<lparr>EXERCISES = s, FOODS = s', SETTINGS = st\<rparr>))))))"

section \<open>The storage factory\<close>

text \<open>
  An instance is known by the number of the \<open>new\<close> that made it. The module's state is
  its variable \<open>repositoryContainer\<close> and the number of objects constructed so far. A
  \<open>DataExportRepository\<close> constructs three repositories of its own.
\<close>

datatype StorageType = indexeddb | localstorage | none

record RepositoryContainer =
  exerciseRepository :: nat
  foodRepository :: nat
  userSettingsRepository :: nat
  dataExportRepository :: nat
  storageType :: StorageType

record factory =
  repositoryContainer :: "RepositoryContainer option"
  constructed :: nat

definition detectStorageType :: "env \<Rightarrow> StorageType" where
  "detectStorageType env =
     (if \<not> window_defined env then none
      else if isIndexedDBAvailable env then indexeddb
      else localstorage)"

definition createExerciseRepository :: "nat \<Rightarrow> nat \<times> nat" where
  "createExerciseRepository n = (n, n + 1)"

definition createFoodRepository :: "nat \<Rightarrow> nat \<times> nat" where
  "createFoodRepository n = (n, n + 1)"

definition createUserSettingsRepository :: "nat \<Rightarrow> nat \<times> nat" where
  "createUserSettingsRepository n = (n, n + 1)"

definition createDataExportRepository :: "nat \<Rightarrow> nat \<times> nat" where
  "createDataExportRepository n = (n, n + 4)"

definition createRepositories :: "env \<Rightarrow> factory \<Rightarrow> RepositoryContainer \<times> factory" where
  "createRepositories env f =
     (case repositoryContainer f of
        Some c \<Rightarrow> (c, f)
      | None \<Rightarrow>
          (case createExerciseRepository (constructed f) of (e, n1) \<Rightarrow>
           case createFoodRepository n1 of (fd, n2) \<Rightarrow>
           case createUserSettingsRepository n2 of (u, n3) \<Rightarrow>
           case createDataExportRepository n3 of (x, n4) \<Rightarrow>
             (let c = \<lparr>exerciseRepository = e, foodRepository = fd,
                       userSettingsRepository = u, dataExportRepository = x,
                       storageType = detectStorageType env\<rparr>
              in (c, \<lparr>repositoryContainer = Some c, constructed = n4\<rparr>))))"

definition getRepositories :: "env \<Rightarrow> factory \<Rightarrow> RepositoryContainer \<times> factory" where
  "getRepositories env f = createRepositories env f"

definition module_loaded :: factory where
  "module_loaded = \<lparr>repositoryContainer = None, constructed = 0\<rparr>"

section \<open>Operation sequences on the two storage wrappers\<close>











section \<open>Example data\<close>

definition example_exercise :: "Date Exercise" where
  \<comment> \<open>performed 2024-01-01, logged at 10:00:00.123 UTC that day\<close>
  "example_exercise =
     \<lparr>id' = ''e1'', name = ''Bench Press'', date = Date 1704067200000,
      createdAt = Date 1704103200123, updatedAt = Date 1704103200123,
      sets = [\<lparr>id' = ''s1'', reps = 10, weight = 135\<rparr>, \<lparr>id' = ''s2'', reps = 8, weight = 155\<rparr>],
      notes = Some ''Felt strong today!''\<rparr>"

definition example_food :: "Date FoodEntry" where
  "example_food =
     \<lparr>id' = ''f1'', name = ''Oatmeal'', date = Date 1704096000000,
      createdAt = Date 1704096300000, updatedAt = Date 1704096300000,
      mealType = breakfast, servingSize = ''1 cup'', servingMultiplier = 2,
      nutrition = \<lparr>calories = 300, protein = 10, carbs = 54, fats = 6\<rparr>\<rparr>"

definition example_settings :: "Date UserSettings" where
  "example_settings =
     \<lparr>dailyCalorieGoal = 2200, weightUnit = kg, theme = dark,
      UserSettings.updatedAt = Date 1704103200123\<rparr>"

definition stored_exercise :: "string Exercise" where
  \<comment> \<open>\<open>example_exercise\<close> as \<open>serialize\<close> stores it\<close>
  "stored_exercise =
     \<lparr>id' = ''e1'', name = ''Bench Press'', date = ''2024-01-01T00:00:00.000Z'',
      createdAt = ''2024-01-01T10:00:00.123Z'', updatedAt = ''2024-01-01T10:00:00.123Z'',
      sets = [\<lparr>id' = ''s1'', reps = 10, weight = 135\<rparr>, \<lparr>id' = ''s2'', reps = 8, weight = 155\<rparr>],
      notes = Some ''Felt strong today!''\<rparr>"

definition stored_food :: "string FoodEntry" where
  "stored_food =
     \<lparr>id' = ''f1'', name = ''Oatmeal'', date = ''2024-01-01T08:00:00.000Z'',
      createdAt = ''2024-01-01T08:05:00.000Z'', updatedAt = ''2024-01-01T08:05:00.000Z'',
      mealType = breakfast, servingSize = ''1 cup'', servingMultiplier = 2,
      nutrition = \<lparr>calories = 300, protein = 10, carbs = 54, fats = 6\<rparr>\<rparr>"

definition stored_settings :: "string UserSettings" where
  "stored_settings =
     \<lparr>dailyCalorieGoal = 2200, weightUnit = kg, theme = dark,
      UserSettings.updatedAt = ''2024-01-01T10:00:00.123Z''\<rparr>"

text \<open>A database with one record in each store, the snapshot \<open>exportData\<close> makes of it, and a snapshot written by hand.\<close>

definition example_world :: world where
  "example_world =
     \<lparr>EXERCISES = [stored_exercise], FOODS = [stored_food],
      SETTINGS = [\<lparr>id' = SETTINGS_ID, \<dots> = stored_settings\<rparr>]\<rparr>"

definition example_snapshot :: ExportData where
  "example_snapshot =
     \<lparr>exercises = Array [stored_exercise], foods = Array [stored_food],
      settings = Some stored_settings, exportedAt = ''2024-01-02T12:53:20.000Z'',
      version = EXPORT_VERSION\<rparr>"

definition skipped_snapshot :: ExportData where
  \<comment> \<open>a backup file whose \<open>exercises\<close> and \<open>foods\<close> are not arrays\<close>
  "skipped_snapshot =
     \<lparr>exercises = Not_an_array, foods = Not_an_array, settings = Some stored_settings,
      exportedAt = ''2024-01-02T12:53:20.000Z'', version = EXPORT_VERSION\<rparr>"





text \<open>Two partial updates: one that carries a \<open>createdAt\<close>, one that renames and carries an \<open>id\<close> and an \<open>updatedAt\<close>.\<close>

definition counter_partial :: "'m partial_entity" where
  "counter_partial =
     \<lparr>p_id = None, p_name = None, p_date = None, p_createdAt = Some (Date 0),
      p_updatedAt = None, p_more = (\<lambda>m. m)\<rparr>"

definition rename_partial :: "'m partial_entity" where
  "rename_partial =
     \<lparr>p_id = Some ''e2'', p_name = Some ''Incline Bench Press'', p_date = None,
      p_createdAt = None, p_updatedAt = Some (Date 0), p_more = (\<lambda>m. m)\<rparr>"

section \<open>Facts about the platform model\<close>

subsection \<open>The calendar\<close>

lemma div_succ:
  fixes a c :: int
  assumes "0 < c"
  shows "(a + 1) div c = (if (a + 1) mod c = 0 then a div c + 1 else a div c)"
proof -
  have a: "a = c * (a div c) + a mod c" by simp
  have r: "0 \<le> a mod c" "a mod c < c" using assms by simp_all
  show ?thesis
  proof (cases "a mod c + 1 = c")
    case True
    have "a + 1 = c * (a div c) + c" using a True by linarith
    then have e: "a + 1 = c * (a div c + 1) + 0" by (simp add: algebra_simps)
    have "(a + 1) div c = a div c + 1"
      by (rule int_div_pos_eq[OF e]) (use assms in auto)
    moreover have "(a + 1) mod c = 0"
      by (rule int_mod_pos_eq[OF e]) (use assms in auto)
    ultimately show ?thesis by simp
  next
    case False
    then have lt: "a mod c + 1 < c" using r by linarith
    have e: "a + 1 = c * (a div c) + (a mod c + 1)" using a by linarith
    have "(a + 1) div c = a div c"
      by (rule int_div_pos_eq[OF e]) (use r lt in auto)
    moreover have "(a + 1) mod c = a mod c + 1"
      by (rule int_mod_pos_eq[OF e]) (use r lt in auto)
    ultimately show ?thesis using r by simp
  qed
qed

lemma mod_shift:
  fixes y c n :: int
  shows "(y - c * n) mod c = y mod c"
proof -
  have "(y - c * n) mod c = (y + c * (- n)) mod c" by simp
  also have "\<dots> = y mod c" by (rule mod_mult_self2)
  finally show ?thesis .
qed

lemma mod_shift4: "(y - 1969 + 1) mod 4 = 0 \<longleftrightarrow> y mod 4 = (0::int)"
  using mod_shift[of y 4 492] by simp

lemma mod_shift100: "(y - 1901 + 1) mod 100 = 0 \<longleftrightarrow> y mod 100 = (0::int)"
  using mod_shift[of y 100 19] by simp

lemma mod_shift400: "(y - 1601 + 1) mod 400 = 0 \<longleftrightarrow> y mod 400 = (0::int)"
  using mod_shift[of y 400 4] by simp

lemma mod100_mod4: "y mod 100 = 0 \<Longrightarrow> y mod 4 = (0::int)"
  using mod_mod_cancel[of 4 100 y] by simp

lemma mod400_mod100: "y mod 400 = 0 \<Longrightarrow> y mod 100 = (0::int)"
  using mod_mod_cancel[of 100 400 y] by simp

lemma DayFromYear_Suc: "DayFromYear (y + 1) = DayFromYear y + DaysInYear y"
proof -
  have e4: "(y - 1969 + 1) div 4 = (if y mod 4 = 0 then (y - 1969) div 4 + 1 else (y - 1969) div 4)"
    using div_succ[of 4 "y - 1969"] mod_shift4[of y] by simp
  have e100: "(y - 1901 + 1) div 100 = (if y mod 100 = 0 then (y - 1901) div 100 + 1 else (y - 1901) div 100)"
    using div_succ[of 100 "y - 1901"] mod_shift100[of y] by simp
  have e400: "(y - 1601 + 1) div 400 = (if y mod 400 = 0 then (y - 1601) div 400 + 1 else (y - 1601) div 400)"
    using div_succ[of 400 "y - 1601"] mod_shift400[of y] by simp
  have r: "y + 1 - 1969 = y - 1969 + 1" "y + 1 - 1901 = y - 1901 + 1" "y + 1 - 1601 = y - 1601 + 1"
          "y + 1 - 1970 = y - 1970 + 1"
    by simp_all
  show ?thesis
    unfolding DayFromYear_def DaysInYear_def r e4 e100 e400
    using mod100_mod4[of y] mod400_mod100[of y] by (simp split: if_splits)
qed

lemma DaysInYear_cases: "DaysInYear y = 365 \<or> DaysInYear y = 366"
  by (simp add: DaysInYear_def)

lemma div_bounds:
  fixes a c :: int
  assumes "0 < c"
  shows "c * (a div c) \<le> a" and "a < c * (a div c) + c"
proof -
  have a: "a = c * (a div c) + a mod c" by simp
  have r: "0 \<le> a mod c" "a mod c < c" using assms by simp_all
  show "c * (a div c) \<le> a" using a r by linarith
  show "a < c * (a div c) + c" using a r by linarith
qed

lemma DayFromYear_estimate:
  fixes d :: int
  defines "k \<equiv> (400 * d) div 146097"
  shows "DayFromYear (1970 + k - 1) \<le> d" and "d < DayFromYear (1970 + k + 2)"
proof -
  have k: "146097 * k \<le> 400 * d" "400 * d < 146097 * k + 146097"
    unfolding k_def using div_bounds[of 146097 "400 * d"] by simp_all
  have r: "1970 + k - 1 - 1970 = k - 1" "1970 + k - 1 - 1969 = k" "1970 + k - 1 - 1901 = k + 68"
    "1970 + k - 1 - 1601 = k + 368" "1970 + k + 2 - 1970 = k + 2" "1970 + k + 2 - 1969 = k + 3"
    "1970 + k + 2 - 1901 = k + 71" "1970 + k + 2 - 1601 = k + 371"
    by simp_all
  note b = div_bounds[of 4 k] div_bounds[of 100 "k + 68"] div_bounds[of 400 "k + 368"]
    div_bounds[of 4 "k + 3"] div_bounds[of 100 "k + 71"] div_bounds[of 400 "k + 371"]
  show "DayFromYear (1970 + k - 1) \<le> d"
    unfolding DayFromYear_def r using k b by simp
  show "d < DayFromYear (1970 + k + 2)"
    unfolding DayFromYear_def r using k b by simp
qed

lemma YearFromDay_bounds:
  "DayFromYear (YearFromDay d) \<le> d" "d < DayFromYear (YearFromDay d + 1)"
  using DayFromYear_estimate[of d]
  by (auto simp: YearFromDay_def Let_def algebra_simps)

lemma DayFromYear_add: "DayFromYear y + 365 * int n \<le> DayFromYear (y + int n)"
proof (induction n)
  case 0
  show ?case by simp
next
  case (Suc n)
  have "DayFromYear (y + int (Suc n)) = DayFromYear (y + int n) + DaysInYear (y + int n)"
    using DayFromYear_Suc[of "y + int n"] by (simp add: algebra_simps)
  then show ?case using Suc DaysInYear_cases[of "y + int n"] by auto
qed

lemma DayFromYear_mono: "y \<le> y' \<Longrightarrow> DayFromYear y \<le> DayFromYear y'"
  using DayFromYear_add[of y "nat (y' - y)"] by simp

lemma YearFromDay_unique:
  assumes "DayFromYear y \<le> d" "d < DayFromYear (y + 1)"
  shows "YearFromDay d = y"
proof (rule ccontr)
  assume ne: "YearFromDay d \<noteq> y"
  show False
  proof (cases "YearFromDay d < y")
    case True
    then have "DayFromYear (YearFromDay d + 1) \<le> DayFromYear y"
      by (intro DayFromYear_mono) simp
    with YearFromDay_bounds(2)[of d] assms show False by linarith
  next
    case False
    with ne have "DayFromYear (y + 1) \<le> DayFromYear (YearFromDay d)"
      by (intro DayFromYear_mono) simp
    with YearFromDay_bounds(1)[of d] assms show False by linarith
  qed
qed

lemma YearFromDay_mono:
  assumes "d1 \<le> d2"
  shows "YearFromDay d1 \<le> YearFromDay d2"
proof (rule ccontr)
  assume "\<not> YearFromDay d1 \<le> YearFromDay d2"
  then have "DayFromYear (YearFromDay d2 + 1) \<le> DayFromYear (YearFromDay d1)"
    by (intro DayFromYear_mono) simp
  with YearFromDay_bounds(1)[of d1] YearFromDay_bounds(2)[of d2] assms show False
    by linarith
qed

lemma less_append_same_length:
  "length a = length b \<Longrightarrow> (a @ x < b @ y) = (a < b \<or> a = b \<and> x < y)"
  by (induction a b rule: list_induct2) auto

lemma length_pad [simp]: "length (pad k n) = k"
  by (induction k arbitrary: n) auto

lemma small_nat_cases: "m < (10::nat) \<Longrightarrow> m = 0 \<or> m = 1 \<or> m = 2 \<or> m = 3 \<or> m = 4 \<or> m = 5 \<or> m = 6 \<or> m = 7 \<or> m = 8 \<or> m = 9"
  by arith

lemma of_char_digit_char: "of_char (digit_char n) = 48 + n mod 10"
proof -
  have "n mod 10 < 10" by simp
  from small_nat_cases[OF this] show ?thesis
    unfolding digit_char_def by (elim disjE) simp_all
qed

lemma digit_val_digit_char [simp]: "digit_val (digit_char n) = Some (n mod 10)"
  by (simp add: digit_val_def of_char_digit_char Let_def)

lemma digit_char_less: "(digit_char a < digit_char b) = (a mod 10 < b mod 10)"
  by (simp add: less_char_def of_char_digit_char)

lemma digit_char_eq: "(digit_char a = digit_char b) = (a mod 10 = b mod 10)"
proof
  assume "digit_char a = digit_char b"
  then have "(of_char (digit_char a) :: nat) = of_char (digit_char b)" by simp
  then show "a mod 10 = b mod 10" by (simp add: of_char_digit_char)
next
  assume "a mod 10 = b mod 10"
  then show "digit_char a = digit_char b" by (simp add: digit_char_def)
qed

lemma digits_val_append:
  "digits_val acc (xs @ ys) =
     (case digits_val acc xs of None \<Rightarrow> None | Some a \<Rightarrow> digits_val a ys)"
  by (induction xs arbitrary: acc) (auto split: option.splits)

lemma digits_val_pad: "digits_val acc (pad k n) = Some (acc * 10 ^ k + n mod 10 ^ k)"
proof (induction k arbitrary: n acc)
  case 0
  show ?case by simp
next
  case (Suc k)
  have "n mod (10 * 10 ^ k) = 10 * (n div 10 mod 10 ^ k) + n mod 10"
    by (rule mod_mult2_eq)
  then show ?case by (simp add: digits_val_append Suc algebra_simps)
qed

lemma digits_val_pad0: "n < 10 ^ k \<Longrightarrow> digits_val 0 (pad k n) = Some n"
  by (simp add: digits_val_pad)

lemma pad_eq:
  assumes "a < 10 ^ k" "b < 10 ^ k"
  shows "(pad k a = pad k b) = (a = b)"
proof
  assume e: "pad k a = pad k b"
  note a = assms(1) and b = assms(2)
  have "Some a = digits_val 0 (pad k a)" using a by (simp add: digits_val_pad0)
  also have "\<dots> = Some b" unfolding e using b by (simp add: digits_val_pad0)
  finally show "a = b" by simp
qed simp

lemma divmod_less_nat:
  fixes a b c :: nat
  assumes "0 < c"
  shows "(a < b) = (a div c < b div c \<or> a div c = b div c \<and> a mod c < b mod c)"
proof -
  have a: "a = c * (a div c) + a mod c" and b: "b = c * (b div c) + b mod c" by simp_all
  have ra: "a mod c < c" and rb: "b mod c < c" using assms by simp_all
  show ?thesis
  proof (cases "a div c < b div c")
    case True
    then have "c * (a div c + 1) \<le> c * (b div c)" by (intro mult_le_mono2) simp
    then have "c * (a div c) + c \<le> c * (b div c)" by (simp add: algebra_simps)
    then have "a < b" using a b ra by linarith
    with True show ?thesis by simp
  next
    case False
    show ?thesis
    proof (cases "a div c = b div c")
      case True
      then show ?thesis using a b by (metis nat_add_left_cancel_less less_irrefl)
    next
      case ne: False
      with False have "b div c < a div c" by simp
      then have "c * (b div c + 1) \<le> c * (a div c)" by (intro mult_le_mono2) simp
      then have "c * (b div c) + c \<le> c * (a div c)" by (simp add: algebra_simps)
      then have "b < a" using a b rb by linarith
      with False ne show ?thesis by simp
    qed
  qed
qed

lemma pad_less: "a < 10 ^ k \<Longrightarrow> b < 10 ^ k \<Longrightarrow> (pad k a < pad k b) = (a < b)"
proof (induction k arbitrary: a b)
  case 0
  then show ?case by simp
next
  case (Suc k)
  have a: "a div 10 < 10 ^ k" and b: "b div 10 < 10 ^ k"
    using Suc.prems by (simp_all add: less_mult_imp_div_less mult.commute)
  have "(pad (Suc k) a < pad (Suc k) b) =
        (a div 10 < b div 10 \<or> a div 10 = b div 10 \<and> a mod 10 < b mod 10)"
    by (simp add: less_append_same_length Suc.IH[OF a b] pad_eq[OF a b] digit_char_less)
  also have "\<dots> = (a < b)" using divmod_less_nat[of 10 a b] by simp
  finally show ?case .
qed

lemma pad2: "pad 2 n = [digit_char (n div 10), digit_char n]"
  by (simp add: numeral_2_eq_2)

lemma pad3: "pad 3 n = [digit_char (n div 10 div 10), digit_char (n div 10), digit_char n]"
  by (simp add: numeral_3_eq_3)

lemma pad4: "pad 4 n = [digit_char (n div 10 div 10 div 10), digit_char (n div 10 div 10), digit_char (n div 10), digit_char n]"
proof -
  have "(4::nat) = Suc 3" by simp
  then show ?thesis by (simp only: pad.simps pad3 append.simps)
qed

lemma MonthFromDay_range:
  assumes "l = 0 \<or> l = 1" "0 \<le> d" "d < 365 + l"
  shows "0 \<le> MonthFromDay l d" "MonthFromDay l d \<le> 11"
    "MonthStart l (MonthFromDay l d) \<le> d" "d < MonthStart l (MonthFromDay l d + 1)"
  using assms unfolding MonthFromDay_def MonthStart_def by (simp_all split: if_splits)

lemma MonthStart_step:
  assumes "l = 0 \<or> l = 1" "0 \<le> m" "m \<le> 11"
  shows "MonthStart l m + 28 \<le> MonthStart l (m + 1)" "MonthStart l (m + 1) \<le> MonthStart l m + 31"
proof -
  have "m = 0 \<or> m = 1 \<or> m = 2 \<or> m = 3 \<or> m = 4 \<or> m = 5 \<or> m = 6 \<or> m = 7 \<or> m = 8 \<or> m = 9 \<or> m = 10 \<or> m = 11"
    using assms(2,3) by arith
  then show "MonthStart l m + 28 \<le> MonthStart l (m + 1)" "MonthStart l (m + 1) \<le> MonthStart l m + 31"
    using assms(1) unfolding MonthStart_def by (elim disjE; simp)+
qed

lemma MonthFromDay_mono:
  assumes "l = 0 \<or> l = 1" "d1 \<le> d2"
  shows "MonthFromDay l d1 \<le> MonthFromDay l d2"
  using assms unfolding MonthFromDay_def by (simp split: if_splits)

lemma time_fields:
  fixes w :: int
  assumes "0 \<le> w" "w < 86400000"
  shows "0 \<le> w div 3600000" "w div 3600000 \<le> 23"
    "w div 3600000 * 3600000 + (w div 60000) mod 60 * 60000 + (w div 1000) mod 60 * 1000 + w mod 1000 = w"
proof -
  show "0 \<le> w div 3600000" using assms by (simp add: pos_imp_zdiv_nonneg_iff)
  show "w div 3600000 \<le> 23" using assms div_bounds[of 3600000 w] by simp
  have a: "w = 1000 * (w div 1000) + w mod 1000" by simp
  have b: "w div 1000 = 60 * (w div 1000 div 60) + (w div 1000) mod 60" by simp
  have c: "w div 1000 div 60 = w div 60000" by (simp add: zdiv_zmult2_eq[symmetric])
  have d: "w div 60000 = 60 * (w div 60000 div 60) + (w div 60000) mod 60" by simp
  have e: "w div 60000 div 60 = w div 3600000" by (simp add: zdiv_zmult2_eq[symmetric])
  show "w div 3600000 * 3600000 + (w div 60000) mod 60 * 60000 + (w div 1000) mod 60 * 1000 + w mod 1000 = w"
    using a b c d e by linarith
qed

lemma number_at_0 [simp]: "number_at 0 n s = map_option int (digits_val 0 (take n s))"
  by (simp add: number_at_def)

lemma parse_fields_text:
  fixes mo dt h mi sec ms :: nat
  assumes "mo < 100" "dt < 100" "h < 100" "mi < 100" "sec < 100" "ms < 1000"
  shows "parse_fields y (CHR ''-'' # pad 2 mo @ CHR ''-'' # pad 2 dt @ CHR ''T'' # pad 2 h @
            CHR '':'' # pad 2 mi @ CHR '':'' # pad 2 sec @ CHR ''.'' # pad 3 ms @ ''Z'') =
         (if 1 \<le> int mo \<and> int mo \<le> 12 \<and> 1 \<le> int dt \<and>
             int dt \<le> MonthStart (DaysInYear y - 365) (int mo) - MonthStart (DaysInYear y - 365) (int mo - 1) \<and>
             int h \<le> 23 \<and> int mi \<le> 59 \<and> int sec \<le> 59
          then Some (MakeDate (MakeDay y (int mo - 1) (int dt)) (MakeTime (int h) (int mi) (int sec) (int ms)))
          else None)"
  using assms
  by (simp add: parse_fields_def number_at_def digits_val_pad0 nth_append)

lemma date_fields:
  shows "InLeapYear t = 0 \<or> InLeapYear t = 1"
    and "0 \<le> DayWithinYear t" and "DayWithinYear t < 365 + InLeapYear t"
    and "0 \<le> MonthFromTime t" and "MonthFromTime t \<le> 11"
    and "1 \<le> DateFromTime t" and "DateFromTime t \<le> 31"
    and "DateFromTime t \<le> MonthStart (InLeapYear t) (MonthFromTime t + 1) -
           MonthStart (InLeapYear t) (MonthFromTime t)"
    and "MakeDay (YearFromTime t) (MonthFromTime t) (DateFromTime t) = Day t"
proof -
  show l: "InLeapYear t = 0 \<or> InLeapYear t = 1"
    using DaysInYear_cases[of "YearFromTime t"] by (auto simp: InLeapYear_def)
  show d0: "0 \<le> DayWithinYear t"
    using YearFromDay_bounds(1)[of "Day t"] by (simp add: DayWithinYear_def YearFromTime_def)
  show d1: "DayWithinYear t < 365 + InLeapYear t"
    using YearFromDay_bounds(2)[of "Day t"] DayFromYear_Suc[of "YearFromDay (Day t)"]
    by (simp add: DayWithinYear_def YearFromTime_def InLeapYear_def)
  note m = MonthFromDay_range[OF l d0 d1]
  show "0 \<le> MonthFromTime t" "MonthFromTime t \<le> 11"
    using m by (simp_all add: MonthFromTime_def)
  show "1 \<le> DateFromTime t"
    using m(3) by (simp add: DateFromTime_def MonthFromTime_def)
  show s: "DateFromTime t \<le> MonthStart (InLeapYear t) (MonthFromTime t + 1) -
           MonthStart (InLeapYear t) (MonthFromTime t)"
    using m(4) by (simp add: DateFromTime_def MonthFromTime_def)
  show "DateFromTime t \<le> 31"
    using s MonthStart_step(2)[OF l m(1) m(2)] by (simp add: MonthFromTime_def)
  show "MakeDay (YearFromTime t) (MonthFromTime t) (DateFromTime t) = Day t"
    by (simp add: MakeDay_def DateFromTime_def DayWithinYear_def InLeapYear_def)
qed

lemma TimeWithinDay_range: "0 \<le> TimeWithinDay t" "TimeWithinDay t < 86400000"
  by (simp_all add: TimeWithinDay_def msPerDay_def)

lemma clock_fields:
  shows "0 \<le> HourFromTime t" and "HourFromTime t \<le> 23"
    and "0 \<le> MinFromTime t" and "MinFromTime t \<le> 59"
    and "0 \<le> SecFromTime t" and "SecFromTime t \<le> 59"
    and "0 \<le> msFromTime t" and "msFromTime t \<le> 999"
    and "MakeTime (HourFromTime t) (MinFromTime t) (SecFromTime t) (msFromTime t) =
         TimeWithinDay t"
proof -
  note w = TimeWithinDay_range[of t]
  show "0 \<le> HourFromTime t" "HourFromTime t \<le> 23"
    using time_fields(1,2)[OF w] by (simp_all add: HourFromTime_def)
  show "0 \<le> MinFromTime t" "MinFromTime t \<le> 59" "0 \<le> SecFromTime t" "SecFromTime t \<le> 59"
    "0 \<le> msFromTime t" "msFromTime t \<le> 999"
    by (simp_all add: MinFromTime_def SecFromTime_def msFromTime_def)
  show "MakeTime (HourFromTime t) (MinFromTime t) (SecFromTime t) (msFromTime t) =
         TimeWithinDay t"
    using time_fields(3)[OF w]
    by (simp add: MakeTime_def HourFromTime_def MinFromTime_def SecFromTime_def msFromTime_def)
qed

lemma MakeDate_Day: "MakeDate (Day t) (TimeWithinDay t) = t"
  by (simp add: MakeDate_def Day_def TimeWithinDay_def)

lemma YearFromDay_first: "YearFromDay (- 100000000) = - 271821"
  by (rule YearFromDay_unique) (simp_all add: DayFromYear_def)

lemma YearFromDay_last: "YearFromDay 100000000 = 275760"
  by (rule YearFromDay_unique) (simp_all add: DayFromYear_def)

lemma year_range:
  assumes "- maxTime \<le> t" "t \<le> maxTime"
  shows "- 271821 \<le> YearFromTime t" "YearFromTime t \<le> 275760"
proof -
  have "- 100000000 \<le> Day t" "Day t \<le> 100000000"
    using assms div_bounds[of 86400000 t] by (simp_all add: Day_def msPerDay_def maxTime_def)
  then show "- 271821 \<le> YearFromTime t" "YearFromTime t \<le> 275760"
    using YearFromDay_mono[of "- 100000000" "Day t"] YearFromDay_mono[of "Day t" 100000000]
    by (simp_all add: YearFromTime_def YearFromDay_first YearFromDay_last)
qed

lemma parse_fields_iso_text:
  "parse_fields (YearFromTime t)
     (CHR ''-'' # pad 2 (nat (MonthFromTime t + 1)) @ CHR ''-'' # pad 2 (nat (DateFromTime t)) @
      CHR ''T'' # pad 2 (nat (HourFromTime t)) @ CHR '':'' # pad 2 (nat (MinFromTime t)) @
      CHR '':'' # pad 2 (nat (SecFromTime t)) @ CHR ''.'' # pad 3 (nat (msFromTime t)) @ ''Z'') =
   Some t"
proof -
  note df = date_fields[of t] and cf = clock_fields[of t]
  have "parse_fields (YearFromTime t)
     (CHR ''-'' # pad 2 (nat (MonthFromTime t + 1)) @ CHR ''-'' # pad 2 (nat (DateFromTime t)) @
      CHR ''T'' # pad 2 (nat (HourFromTime t)) @ CHR '':'' # pad 2 (nat (MinFromTime t)) @
      CHR '':'' # pad 2 (nat (SecFromTime t)) @ CHR ''.'' # pad 3 (nat (msFromTime t)) @ ''Z'') =
    Some (MakeDate (MakeDay (YearFromTime t) (MonthFromTime t) (DateFromTime t))
            (MakeTime (HourFromTime t) (MinFromTime t) (SecFromTime t) (msFromTime t)))"
    using df(4,5,6,7,8) cf(1-8)
    by (subst parse_fields_text) (simp_all add: InLeapYear_def)
  then show ?thesis by (simp add: df(9) cf(9) MakeDate_Day)
qed

lemma Date_parse_iso_text:
  assumes "- maxTime \<le> t" "t \<le> maxTime"
  shows "Date_parse (iso_text t) = Some t"
proof -
  note yr = year_range[OF assms]
  define r where "r = CHR ''-'' # pad 2 (nat (MonthFromTime t + 1)) @ CHR ''-'' # pad 2 (nat (DateFromTime t)) @
      CHR ''T'' # pad 2 (nat (HourFromTime t)) @ CHR '':'' # pad 2 (nat (MinFromTime t)) @
      CHR '':'' # pad 2 (nat (SecFromTime t)) @ CHR ''.'' # pad 3 (nat (msFromTime t)) @ ''Z''"
  have iso: "iso_text t = year_text (YearFromTime t) @ r"
    by (simp add: iso_text_def r_def)
  have len: "length r = 20" by (simp add: r_def)
  have p: "parse_fields (YearFromTime t) r = Some t"
    unfolding r_def by (rule parse_fields_iso_text)
  consider (four) "0 \<le> YearFromTime t" "YearFromTime t \<le> 9999"
    | (plus) "9999 < YearFromTime t" | (minus) "YearFromTime t < 0"
    by linarith
  then show ?thesis
  proof cases
    case four
    then have y: "year_text (YearFromTime t) = pad 4 (nat (YearFromTime t))"
      by (simp add: year_text_def)
    have n: "nat (YearFromTime t) < 10 ^ 4" using four by simp
    show ?thesis
      unfolding iso y Date_parse_def
      using four by (simp add: len digits_val_pad0[OF n] p)
  next
    case plus
    then have y: "year_text (YearFromTime t) = CHR ''+'' # pad 6 (nat (YearFromTime t))"
      by (simp add: year_text_def)
    have n: "nat (YearFromTime t) < 10 ^ 6" using yr by simp
    show ?thesis
      unfolding iso y Date_parse_def
      using plus by (simp add: len number_at_def digits_val_pad0[OF n] p)
  next
    case minus
    then have y: "year_text (YearFromTime t) = CHR ''-'' # pad 6 (nat (- YearFromTime t))"
      by (simp add: year_text_def)
    have n: "nat (- YearFromTime t) < 10 ^ 6" using yr by simp
    show ?thesis
      unfolding iso y Date_parse_def
      using minus by (simp add: len number_at_def digits_val_pad0[OF n] p)
  qed
qed

lemma divmod_less_int:
  fixes a b c :: int
  assumes "0 < c"
  shows "(a < b) = (a div c < b div c \<or> a div c = b div c \<and> a mod c < b mod c)"
proof -
  have a: "a = c * (a div c) + a mod c" and b: "b = c * (b div c) + b mod c" by simp_all
  have ra: "0 \<le> a mod c" "a mod c < c" and rb: "0 \<le> b mod c" "b mod c < c"
    using assms by simp_all
  show ?thesis
  proof (cases "a div c < b div c")
    case True
    then have "c * (a div c + 1) \<le> c * (b div c)" using assms by (intro mult_left_mono) simp_all
    then have "c * (a div c) + c \<le> c * (b div c)" by (simp add: algebra_simps)
    then have "a < b" using a b ra rb by linarith
    with True show ?thesis by simp
  next
    case False
    show ?thesis
    proof (cases "a div c = b div c")
      case True
      then show ?thesis using a b by (metis add_less_cancel_left less_irrefl)
    next
      case ne: False
      with False have "b div c < a div c" by simp
      then have "c * (b div c + 1) \<le> c * (a div c)" using assms by (intro mult_left_mono) simp_all
      then have "c * (b div c) + c \<le> c * (a div c)" by (simp add: algebra_simps)
      then have "b < a" using a b ra rb by linarith
      with False ne show ?thesis by simp
    qed
  qed
qed

lemma clock_fields_less:
  assumes "TimeWithinDay t1 < TimeWithinDay t2"
  shows "HourFromTime t1 < HourFromTime t2 \<or> HourFromTime t1 = HourFromTime t2 \<and>
         (MinFromTime t1 < MinFromTime t2 \<or> MinFromTime t1 = MinFromTime t2 \<and>
          (SecFromTime t1 < SecFromTime t2 \<or> SecFromTime t1 = SecFromTime t2 \<and>
           msFromTime t1 < msFromTime t2))"
proof -
  define w1 w2 where "w1 = TimeWithinDay t1" and "w2 = TimeWithinDay t2"
  define a1 a2 where "a1 = w1 div 1000" and "a2 = w2 div 1000"
  define b1 b2 where "b1 = w1 div 60000" and "b2 = w2 div 60000"
  have c: "w div 1000 div 60 = w div 60000" "w div 60000 div 60 = w div 3600000" for w :: int
    by (simp_all add: zdiv_zmult2_eq[symmetric])
  have ab: "a1 div 60 = b1" "a2 div 60 = b2"
    by (simp_all add: a1_def a2_def b1_def b2_def c)
  have bh: "b1 div 60 = HourFromTime t1" "b2 div 60 = HourFromTime t2"
    by (simp_all add: b1_def b2_def c HourFromTime_def w1_def w2_def)
  have f: "MinFromTime t1 = b1 mod 60" "MinFromTime t2 = b2 mod 60"
    "SecFromTime t1 = a1 mod 60" "SecFromTime t2 = a2 mod 60"
    "msFromTime t1 = w1 mod 1000" "msFromTime t2 = w2 mod 1000"
    by (simp_all add: MinFromTime_def SecFromTime_def msFromTime_def a1_def a2_def b1_def b2_def
        w1_def w2_def)
  have s1: "a1 < a2 \<or> a1 = a2 \<and> msFromTime t1 < msFromTime t2"
    using assms divmod_less_int[of 1000 w1 w2] by (simp add: w1_def w2_def a1_def a2_def f)
  have s2: "a1 < a2 \<Longrightarrow> b1 < b2 \<or> b1 = b2 \<and> SecFromTime t1 < SecFromTime t2"
    using divmod_less_int[of 60 a1 a2] by (simp add: ab f)
  have s3: "b1 < b2 \<Longrightarrow> HourFromTime t1 < HourFromTime t2 \<or>
      HourFromTime t1 = HourFromTime t2 \<and> MinFromTime t1 < MinFromTime t2"
    using divmod_less_int[of 60 b1 b2] by (simp add: bh f)
  have e1: "a1 = a2 \<Longrightarrow> b1 = b2 \<and> SecFromTime t1 = SecFromTime t2"
    using ab f by simp
  have e2: "b1 = b2 \<Longrightarrow> HourFromTime t1 = HourFromTime t2 \<and> MinFromTime t1 = MinFromTime t2"
    using bh f by simp
  from s1 s2 s3 e1 e2 show ?thesis by blast
qed

lemma clock_text_less:
  assumes "TimeWithinDay t1 < TimeWithinDay t2"
  shows "CHR ''T'' # pad 2 (nat (HourFromTime t1)) @ CHR '':'' # pad 2 (nat (MinFromTime t1)) @
           CHR '':'' # pad 2 (nat (SecFromTime t1)) @ CHR ''.'' # pad 3 (nat (msFromTime t1)) @ ''Z''
       < CHR ''T'' # pad 2 (nat (HourFromTime t2)) @ CHR '':'' # pad 2 (nat (MinFromTime t2)) @
           CHR '':'' # pad 2 (nat (SecFromTime t2)) @ CHR ''.'' # pad 3 (nat (msFromTime t2)) @ ''Z''"
proof -
  note c1 = clock_fields[of t1] and c2 = clock_fields[of t2]
  have h: "nat (HourFromTime t1) < 10 ^ 2" "nat (HourFromTime t2) < 10 ^ 2"
    and m: "nat (MinFromTime t1) < 10 ^ 2" "nat (MinFromTime t2) < 10 ^ 2"
    and s: "nat (SecFromTime t1) < 10 ^ 2" "nat (SecFromTime t2) < 10 ^ 2"
    and ms: "nat (msFromTime t1) < 10 ^ 3" "nat (msFromTime t2) < 10 ^ 3"
    using c1(2,4,6,8) c2(2,4,6,8) by simp_all
  have "nat (HourFromTime t1) < nat (HourFromTime t2) \<or>
      nat (HourFromTime t1) = nat (HourFromTime t2) \<and>
      (nat (MinFromTime t1) < nat (MinFromTime t2) \<or>
       nat (MinFromTime t1) = nat (MinFromTime t2) \<and>
       (nat (SecFromTime t1) < nat (SecFromTime t2) \<or>
        nat (SecFromTime t1) = nat (SecFromTime t2) \<and>
        nat (msFromTime t1) < nat (msFromTime t2)))"
    using clock_fields_less[OF assms] c1(1,3,5,7) c2(1,3,5,7) by auto
  then show ?thesis
    by (simp add: less_append_same_length pad_less[OF h] pad_eq[OF h] pad_less[OF m] pad_eq[OF m]
        pad_less[OF s] pad_eq[OF s] pad_less[OF ms] pad_eq[OF ms])
qed

lemma same_day_fields:
  assumes "Day t1 = Day t2"
  shows "YearFromTime t1 = YearFromTime t2" "MonthFromTime t1 = MonthFromTime t2"
    "DateFromTime t1 = DateFromTime t2"
  using assms
  by (simp_all add: YearFromTime_def MonthFromTime_def DateFromTime_def InLeapYear_def
      DayWithinYear_def)

lemma calendar_text_less:
  assumes "Day t1 < Day t2" "0 \<le> YearFromTime t1" "YearFromTime t2 \<le> 9999"
  shows "pad 4 (nat (YearFromTime t1)) @ CHR ''-'' # pad 2 (nat (MonthFromTime t1 + 1)) @
           CHR ''-'' # pad 2 (nat (DateFromTime t1))
       < pad 4 (nat (YearFromTime t2)) @ CHR ''-'' # pad 2 (nat (MonthFromTime t2 + 1)) @
           CHR ''-'' # pad 2 (nat (DateFromTime t2))"
proof -
  note f1 = date_fields[of t1] and f2 = date_fields[of t2]
  have yy: "YearFromTime t1 \<le> YearFromTime t2"
    using assms(1) YearFromDay_mono[of "Day t1" "Day t2"] by (simp add: YearFromTime_def)
  have y: "nat (YearFromTime t1) < 10 ^ 4" "nat (YearFromTime t2) < 10 ^ 4"
    using assms yy by simp_all
  have m: "nat (MonthFromTime t1 + 1) < 10 ^ 2" "nat (MonthFromTime t2 + 1) < 10 ^ 2"
    using f1(5) f2(5) by simp_all
  have d: "nat (DateFromTime t1) < 10 ^ 2" "nat (DateFromTime t2) < 10 ^ 2"
    using f1(7) f2(7) by simp_all
  have "YearFromTime t1 < YearFromTime t2 \<or> YearFromTime t1 = YearFromTime t2 \<and>
        (MonthFromTime t1 < MonthFromTime t2 \<or> MonthFromTime t1 = MonthFromTime t2 \<and>
         DateFromTime t1 < DateFromTime t2)"
  proof (cases "YearFromTime t1 = YearFromTime t2")
    case False
    with yy show ?thesis by simp
  next
    case True
    then have l: "InLeapYear t1 = InLeapYear t2" by (simp add: InLeapYear_def)
    have dd: "DayWithinYear t1 < DayWithinYear t2"
      using assms(1) True by (simp add: DayWithinYear_def)
    have mm: "MonthFromTime t1 \<le> MonthFromTime t2"
      unfolding MonthFromTime_def l using MonthFromDay_mono[OF f2(1), of "DayWithinYear t1" "DayWithinYear t2"] dd
      by simp
    show ?thesis
    proof (cases "MonthFromTime t1 = MonthFromTime t2")
      case False
      with mm True show ?thesis by simp
    next
      case meq: True
      then have "DateFromTime t1 < DateFromTime t2"
        using dd l by (simp add: DateFromTime_def)
      with True meq show ?thesis by simp
    qed
  qed
  then have "nat (YearFromTime t1) < nat (YearFromTime t2) \<or>
      nat (YearFromTime t1) = nat (YearFromTime t2) \<and>
      (nat (MonthFromTime t1 + 1) < nat (MonthFromTime t2 + 1) \<or>
       nat (MonthFromTime t1 + 1) = nat (MonthFromTime t2 + 1) \<and>
       nat (DateFromTime t1) < nat (DateFromTime t2))"
    using assms(2) yy f1(4,6) f2(4,6) by auto
  then show ?thesis
    by (simp add: less_append_same_length pad_less[OF y] pad_eq[OF y] pad_less[OF m] pad_eq[OF m]
        pad_less[OF d] pad_eq[OF d])
qed

lemma iso_text_less:
  assumes "t1 < t2" "0 \<le> YearFromTime t1" "YearFromTime t2 \<le> 9999"
  shows "iso_text t1 < iso_text t2"
proof -
  have dd: "Day t1 \<le> Day t2"
    using assms(1) by (simp add: Day_def msPerDay_def zdiv_mono1)
  have yy: "YearFromTime t1 \<le> YearFromTime t2"
    using dd YearFromDay_mono[of "Day t1" "Day t2"] by (simp add: YearFromTime_def)
  have y1: "year_text (YearFromTime t1) = pad 4 (nat (YearFromTime t1))"
    and y2: "year_text (YearFromTime t2) = pad 4 (nat (YearFromTime t2))"
    using assms(2,3) yy by (simp_all add: year_text_def)
  define a where "a t = pad 4 (nat (YearFromTime t)) @ CHR ''-'' # pad 2 (nat (MonthFromTime t + 1)) @
           CHR ''-'' # pad 2 (nat (DateFromTime t))" for t
  define b where "b t = CHR ''T'' # pad 2 (nat (HourFromTime t)) @ CHR '':'' # pad 2 (nat (MinFromTime t)) @
           CHR '':'' # pad 2 (nat (SecFromTime t)) @ CHR ''.'' # pad 3 (nat (msFromTime t)) @ ''Z''" for t
  have i1: "iso_text t1 = a t1 @ b t1" and i2: "iso_text t2 = a t2 @ b t2"
    by (simp_all add: iso_text_def y1 y2 a_def b_def)
  have len: "length (a t1) = length (a t2)" by (simp add: a_def)
  show ?thesis
  proof (cases "Day t1 = Day t2")
    case False
    with dd have "Day t1 < Day t2" by simp
    from calendar_text_less[OF this assms(2,3)] have "a t1 < a t2" by (simp add: a_def)
    then show ?thesis unfolding i1 i2 by (simp add: less_append_same_length[OF len])
  next
    case True
    then have e: "a t1 = a t2" using same_day_fields[OF True] by (simp add: a_def)
    have "t1 = Day t1 * msPerDay + TimeWithinDay t1" "t2 = Day t2 * msPerDay + TimeWithinDay t2"
      by (simp_all add: Day_def TimeWithinDay_def)
    with True assms(1) have "TimeWithinDay t1 < TimeWithinDay t2" by simp
    from clock_text_less[OF this] have "b t1 < b t2" by (simp add: b_def)
    then show ?thesis unfolding i1 i2 e by (simp add: less_append_same_length[of "a t2" "a t2"])
  qed
qed

lemma Day_year_0: "YearFromDay (- 719528) = 0"
  by (rule YearFromDay_unique) (simp_all add: DayFromYear_def)

lemma Day_year_9999: "YearFromDay 2932896 = 9999"
  by (rule YearFromDay_unique) (simp_all add: DayFromYear_def)

lemma four_digit_year_range:
  assumes "four_digit_year t"
  shows "0 \<le> YearFromTime t" "YearFromTime t \<le> 9999" "- maxTime \<le> t" "t \<le> maxTime"
proof -
  have "- 719528 \<le> Day t" "Day t \<le> 2932896"
    using assms div_bounds[of 86400000 t] by (simp_all add: Day_def msPerDay_def four_digit_year_def)
  then show "0 \<le> YearFromTime t" "YearFromTime t \<le> 9999"
    using YearFromDay_mono[of "- 719528" "Day t"] YearFromDay_mono[of "Day t" 2932896]
    by (simp_all add: YearFromTime_def Day_year_0 Day_year_9999)
  show "- maxTime \<le> t" "t \<le> maxTime"
    using assms by (simp_all add: four_digit_year_def maxTime_def)
qed

lemma iso_text_le_iff:
  assumes "four_digit_year t1" "four_digit_year t2"
  shows "(iso_text t1 \<le> iso_text t2) = (t1 \<le> t2)"
proof
  assume le: "iso_text t1 \<le> iso_text t2"
  show "t1 \<le> t2"
  proof (rule ccontr)
    assume "\<not> t1 \<le> t2"
    then have "t2 < t1" by simp
    from iso_text_less[OF this] four_digit_year_range[OF assms(1)] four_digit_year_range[OF assms(2)]
    have "iso_text t2 < iso_text t1" by simp
    with le show False by simp
  qed
next
  assume "t1 \<le> t2"
  then consider "t1 = t2" | "t1 < t2" by linarith
  then show "iso_text t1 \<le> iso_text t2"
  proof cases
    case 1
    then show ?thesis by simp
  next
    case 2
    from iso_text_less[OF this] four_digit_year_range[OF assms(1)] four_digit_year_range[OF assms(2)]
    show ?thesis by simp
  qed
qed

lemma iso_text_less_iff:
  assumes "four_digit_year t1" "four_digit_year t2"
  shows "(iso_text t1 < iso_text t2) = (t1 < t2)"
  using iso_text_le_iff[OF assms(2) assms(1)] by (simp add: not_le[symmetric])

subsection \<open>Dates and their text\<close>

lemma toISOString_Inr:
  "toISOString d = Inr s \<longleftrightarrow> (\<exists>t. d = Date t \<and> - maxTime \<le> t \<and> t \<le> maxTime \<and> s = iso_text t)"
  by (cases d) (auto simp: toISOString_def time_value_def)

lemma toISOString_valid: "valid_Date d \<Longrightarrow> \<exists>s. toISOString d = Inr s"
  by (auto simp: valid_Date_def toISOString_def split: option.splits)

lemma new_Date_toISOString: "toISOString d = Inr s \<Longrightarrow> new_Date s = d"
  by (auto simp: toISOString_Inr new_Date_def Date_parse_iso_text)


subsection \<open>Serialization\<close>

lemma serialize_Inr:
  "serialize e = Inr r \<longleftrightarrow>
     (\<exists>d c u. toISOString (date e) = Inr d \<and> toISOString (createdAt e) = Inr c \<and>
        toISOString (updatedAt e) = Inr u \<and>
        r = \<lparr>id' = id' e, name = name e, date = d, createdAt = c, updatedAt = u,
             \<dots> = entity.more e\<rparr>)"
  by (auto simp: serialize_def split: sum.splits)

lemma deserialize_serialize: "serialize e = Inr r \<Longrightarrow> deserialize r = e"
  by (auto simp: serialize_Inr deserialize_def new_Date_toISOString)

lemma serialize_id: "serialize e = Inr r \<Longrightarrow> id' r = id' e"
  by (auto simp: serialize_Inr)

lemma serialize_valid:
  assumes "valid_Date (date e)" "valid_Date (createdAt e)" "valid_Date (updatedAt e)"
  shows "\<exists>r. serialize e = Inr r"
  using toISOString_valid[OF assms(1)] toISOString_valid[OF assms(2)] toISOString_valid[OF assms(3)]
  by (auto simp: serialize_def)

lemma settings_serialize_Inr:
  "settings_serialize s = Inr r \<longleftrightarrow>
     (\<exists>u. toISOString (UserSettings.updatedAt s) = Inr u \<and>
        r = \<lparr>id' = SETTINGS_ID,
             \<dots> = \<lparr>dailyCalorieGoal = dailyCalorieGoal s, weightUnit = weightUnit s,
                    theme = theme s, UserSettings.updatedAt = u\<rparr>\<rparr>)"
  by (auto simp: settings_serialize_def split: sum.splits)

lemma settings_deserialize_serialize:
  "settings_serialize s = Inr r \<Longrightarrow> settings_deserialize r = (s :: Date UserSettings)"
  by (auto simp: settings_serialize_Inr settings_deserialize_def new_Date_toISOString)

lemma example_exercise_valid:
  "valid_Date (date example_exercise)" "valid_Date (createdAt example_exercise)"
  "valid_Date (updatedAt example_exercise)"
  by (simp_all add: example_exercise_def valid_Date_def time_value_def maxTime_def)

lemma example_food_valid:
  "valid_Date (date example_food)" "valid_Date (createdAt example_food)"
  "valid_Date (updatedAt example_food)"
  by (simp_all add: example_food_def valid_Date_def time_value_def maxTime_def)

lemma serialize_example_exercise: "serialize example_exercise = Inr stored_exercise"
  by code_simp

text \<open>
  Claim C9 (round trip): for every entity, \<open>deserialize (serialize e) = e\<close>. An entity's
  timestamps are time values (valid Dates). Then \<open>serialize\<close> succeeds, each date-bearing
  property is stored as the ISO-8601 text of the timestamp, \<open>deserialize\<close> gives back the
  entity, the timestamps to the millisecond, and an exercise's \<open>sets\<close> are the same list.
  The first part is for any entity type (exercise, food entry), the last for settings.
\<close>

theorem serialize_round_trip:
  fixes e :: "(Date, 'm) entity_scheme" and x :: "Date Exercise" and s :: "Date UserSettings"
  assumes "valid_Date (date e)" "valid_Date (createdAt e)" "valid_Date (updatedAt e)"
    and "valid_Date (date x)" "valid_Date (createdAt x)" "valid_Date (updatedAt x)"
    and "valid_Date (UserSettings.updatedAt s)"
  shows "(\<exists>r. serialize e = Inr r \<and> deserialize r = e \<and>
            toISOString (date e) = Inr (date r) \<and> toISOString (createdAt e) = Inr (createdAt r) \<and>
            toISOString (updatedAt e) = Inr (updatedAt r)) \<and>
         (\<exists>r. serialize x = Inr r \<and> deserialize r = x \<and> sets r = sets x) \<and>
         (\<exists>r. settings_serialize s = Inr r \<and> settings_deserialize r = s \<and>
            toISOString (UserSettings.updatedAt s) = Inr (UserSettings.updatedAt (item.more r)))"
proof (intro conjI)
  from serialize_valid[OF assms(1-3)] obtain r where r: "serialize e = Inr r" by blast
  from r have f: "toISOString (date e) = Inr (date r)" "toISOString (createdAt e) = Inr (createdAt r)"
    "toISOString (updatedAt e) = Inr (updatedAt r)"
    by (auto simp: serialize_Inr)
  show "\<exists>r. serialize e = Inr r \<and> deserialize r = e \<and>
            toISOString (date e) = Inr (date r) \<and> toISOString (createdAt e) = Inr (createdAt r) \<and>
            toISOString (updatedAt e) = Inr (updatedAt r)"
    using r f deserialize_serialize[OF r] by blast
  from serialize_valid[OF assms(4-6)] obtain q where q: "serialize x = Inr q" by blast
  from q have "sets q = sets x" by (cases x) (auto simp: serialize_Inr)
  then show "\<exists>r. serialize x = Inr r \<and> deserialize r = x \<and> sets r = sets x"
    using q deserialize_serialize[OF q] by blast
  from toISOString_valid[OF assms(7)] obtain u where u: "toISOString (UserSettings.updatedAt s) = Inr u"
    by blast
  then obtain p where p: "settings_serialize s = Inr p" by (simp add: settings_serialize_def)
  from p have "toISOString (UserSettings.updatedAt s) = Inr (UserSettings.updatedAt (item.more p))"
    by (auto simp: settings_serialize_Inr)
  then show "\<exists>r. settings_serialize s = Inr r \<and> settings_deserialize r = s \<and>
            toISOString (UserSettings.updatedAt s) = Inr (UserSettings.updatedAt (item.more r))"
    using p settings_deserialize_serialize[OF p] by blast
qed

theorem serialize_round_trip_witness:
  "(\<exists>r. serialize example_food = Inr r \<and> deserialize r = example_food \<and>
            toISOString (date example_food) = Inr (date r) \<and>
            toISOString (createdAt example_food) = Inr (createdAt r) \<and>
            toISOString (updatedAt example_food) = Inr (updatedAt r)) \<and>
   (\<exists>r. serialize example_exercise = Inr r \<and> deserialize r = example_exercise \<and>
            sets r = sets example_exercise) \<and>
   (\<exists>r. settings_serialize example_settings = Inr r \<and> settings_deserialize r = example_settings \<and>
            toISOString (UserSettings.updatedAt example_settings) =
              Inr (UserSettings.updatedAt (item.more r)))"
  by (rule serialize_round_trip[OF example_food_valid example_exercise_valid])
    (simp add: example_settings_def valid_Date_def time_value_def maxTime_def)

subsection \<open>Object stores\<close>

lemma find_insort_key_other: "\<not> P x \<Longrightarrow> find P (insort_key f x xs) = find P xs"
  by (induction xs) auto

lemma find_insort_key_new: "P x \<Longrightarrow> find P xs = None \<Longrightarrow> find P (insort_key f x xs) = Some x"
  by (induction xs) (auto split: if_splits)

lemma find_filter_other:
  "i \<noteq> j \<Longrightarrow> find (\<lambda>r. id' r = i) (filter (\<lambda>r. id' r \<noteq> j) xs) = find (\<lambda>r. id' r = i) xs"
  by (induction xs) auto

lemma find_filter_same: "find (\<lambda>r. id' r = i) (filter (\<lambda>r. id' r \<noteq> i) xs) = None"
  by (induction xs) auto

lemma find_id: "find (\<lambda>r. id' r = i) xs = Some x \<Longrightarrow> id' x = i"
  by (induction xs) (auto split: if_splits)

lemma indexedDB_add_Inr:
  "indexedDB_add env sn store x = (Inr y, store') \<longleftrightarrow>
     (\<exists>ix. transaction env sn = Inr ix) \<and> find (\<lambda>r. id' r = id' x) store = None \<and>
     y = x \<and> store' = insort_key id' x store"
  by (auto simp: indexedDB_add_def split: sum.splits)

lemma indexedDB_update_Inr:
  "indexedDB_update env sn store x = (Inr y, store') \<longleftrightarrow>
     (\<exists>ix. transaction env sn = Inr ix) \<and> y = x \<and>
     store' = insort_key id' x (filter (\<lambda>r. id' r \<noteq> id' x) store)"
  by (auto simp: indexedDB_update_def split: sum.splits)

lemma read_property_None:
  "(read_property d k = None) = (map_of d k = None \<and> k \<notin> set Object_prototype_members)"
  by (simp add: read_property_def split: option.splits)

lemma write_property_fresh:
  "k \<notin> set Object_prototype_members \<Longrightarrow> write_property d k v = AList.update k v d"
  by (auto simp: write_property_def Object_prototype_members_def)

lemma read_property_written: "read_property (AList.update k v d) k = Some (Own v)"
  by (simp add: read_property_def update_conv')

lemma Repository_create_Inr:
  "Repository_create env sn store e = (Inr e', store') \<longleftrightarrow>
     (\<exists>r. serialize e = Inr r \<and> indexedDB_add env sn store r = (Inr r, store')) \<and> e' = e"
  by (auto simp: Repository_create_def indexedDB_add_def split: sum.splits prod.splits if_splits)

text \<open>
  Claim C6 (duplicate rejection): after a create that succeeded, a second create with the
  same identifier is rejected with the backend's duplicate-key error and leaves the store
  as it was, the first record still there with the values it was written with. Proved for
  \<open>add\<close> of the durable backend, for \<open>add\<close> of the degraded backend (in a runtime where it
  is available: \<open>window\<close> defined) and for a repository's \<open>create\<close>, where the entity of
  the second call has valid timestamps (with an invalid one \<open>serialize\<close> throws before the
  store is reached).
\<close>

theorem duplicate_create_rejected:
  fixes x y :: "'a item_scheme" and e e2 :: "(Date, 'm) entity_scheme"
  assumes "indexedDB_add env sn store x = (Inr x, store1)"
    and "id' y = id' x"
    and "window_defined env'"
    and "localStorage_add env' stored x = (Inr x, stored1)"
    and "Repository_create env sn' estore e = (Inr e, estore1)"
    and "id' e2 = id' e"
    and "valid_Date (date e2)" "valid_Date (createdAt e2)" "valid_Date (updatedAt e2)"
  shows "indexedDB_add env sn store1 y = (Inl (Error (''Failed to add item to '' @ sn)), store1) \<and>
         indexedDB_getById env sn store1 (id' x) = Inr (Some x) \<and>
         localStorage_add env' stored1 y =
           (Inl (Error (''Item with id '' @ id' y @ '' already exists'')), stored1) \<and>
         localStorage_getById env' stored1 (id' x) = Inr (Some (Own x)) \<and>
         Repository_create env sn' estore1 e2 =
           (Inl (Error (''Failed to add item to '' @ sn')), estore1) \<and>
         Repository_getById env sn' estore1 (id' e) = Inr (Some e)"
proof (intro conjI)
  from assms(1) obtain ix where t: "transaction env sn = Inr ix"
    and n: "find (\<lambda>r. id' r = id' x) store = None" and s1: "store1 = insort_key id' x store"
    by (auto simp: indexedDB_add_Inr)
  have f: "find (\<lambda>r. id' r = id' x) store1 = Some x"
    unfolding s1 by (rule find_insort_key_new[OF _ n]) simp
  show "indexedDB_add env sn store1 y = (Inl (Error (''Failed to add item to '' @ sn)), store1)"
    using t f assms(2) by (simp add: indexedDB_add_def)
  show "indexedDB_getById env sn store1 (id' x) = Inr (Some x)"
    using t f by (simp add: indexedDB_getById_def)
next
  from assms(3,4) obtain d0 where g: "getStoreData env' stored = Some d0"
    and n: "read_property d0 (id' x) = None"
    and s1: "stored1 = Some (JSON (write_property d0 (id' x) x))"
    by (auto simp: localStorage_add_def setStoreData_def split: option.splits if_splits)
  from n have w: "write_property d0 (id' x) x = AList.update (id' x) x d0"
    by (simp add: read_property_None write_property_fresh)
  have d: "getStoreData env' stored1 = Some (AList.update (id' x) x d0)"
    using assms(3) by (simp add: s1 w getStoreData_def)
  show "localStorage_add env' stored1 y =
           (Inl (Error (''Item with id '' @ id' y @ '' already exists'')), stored1)"
    using assms(2) by (simp add: localStorage_add_def d read_property_written)
  show "localStorage_getById env' stored1 (id' x) = Inr (Some (Own x))"
    by (simp add: localStorage_getById_def d read_property_written)
next
  from assms(5) obtain r where r: "serialize e = Inr r"
    and a: "indexedDB_add env sn' estore r = (Inr r, estore1)"
    by (auto simp: Repository_create_Inr)
  from a obtain ix where t: "transaction env sn' = Inr ix"
    and n: "find (\<lambda>q. id' q = id' r) estore = None" and s1: "estore1 = insort_key id' r estore"
    by (auto simp: indexedDB_add_Inr)
  have f: "find (\<lambda>q. id' q = id' r) estore1 = Some r"
    unfolding s1 by (rule find_insort_key_new[OF _ n]) simp
  from serialize_valid[OF assms(7-9)] obtain r2 where r2: "serialize e2 = Inr r2" by blast
  have i: "id' r2 = id' r" using serialize_id[OF r2] serialize_id[OF r] assms(6) by simp
  show "Repository_create env sn' estore1 e2 =
           (Inl (Error (''Failed to add item to '' @ sn')), estore1)"
    using t f by (simp add: Repository_create_def r2 indexedDB_add_def i)
  show "Repository_getById env sn' estore1 (id' e) = Inr (Some e)"
    using t f serialize_id[OF r] deserialize_serialize[OF r]
    by (simp add: Repository_getById_def indexedDB_getById_def)
qed

lemma stored_exercise_id: "id' stored_exercise = ''e1''"
  by (simp add: stored_exercise_def)

theorem duplicate_create_rejected_witness:
  "indexedDB_add browser STORES_EXERCISES [stored_exercise] (stored_exercise\<lparr>name := ''Squat''\<rparr>) =
     (Inl (Error (''Failed to add item to '' @ STORES_EXERCISES)), [stored_exercise]) \<and>
   indexedDB_getById browser STORES_EXERCISES [stored_exercise] (id' stored_exercise) =
     Inr (Some stored_exercise) \<and>
   localStorage_add browser (Some (JSON [(''e1'', stored_exercise)])) (stored_exercise\<lparr>name := ''Squat''\<rparr>) =
     (Inl (Error (''Item with id '' @ id' (stored_exercise\<lparr>name := ''Squat''\<rparr>) @ '' already exists'')),
      Some (JSON [(''e1'', stored_exercise)])) \<and>
   localStorage_getById browser (Some (JSON [(''e1'', stored_exercise)])) (id' stored_exercise) =
     Inr (Some (Own stored_exercise)) \<and>
   Repository_create browser STORES_EXERCISES [stored_exercise] (example_exercise\<lparr>name := ''Squat''\<rparr>) =
     (Inl (Error (''Failed to add item to '' @ STORES_EXERCISES)), [stored_exercise]) \<and>
   Repository_getById browser STORES_EXERCISES [stored_exercise] (id' example_exercise) =
     Inr (Some example_exercise)"
proof -
  have t: "transaction browser STORES_EXERCISES = Inr [''name'', ''date'']"
    by (simp add: transaction_def openDatabase_def browser_def schema_indexes_def)
  have a: "indexedDB_add browser STORES_EXERCISES [] stored_exercise = (Inr stored_exercise, [stored_exercise])"
    by (simp add: indexedDB_add_def t)
  have l: "localStorage_add browser None stored_exercise =
      (Inr stored_exercise, Some (JSON [(''e1'', stored_exercise)]))"
    by (simp add: localStorage_add_def getStoreData_def setStoreData_def browser_def
        stored_exercise_id read_property_def write_property_def Object_prototype_members_def)
  have c: "Repository_create browser STORES_EXERCISES [] example_exercise = (Inr example_exercise, [stored_exercise])"
    by (simp add: Repository_create_def serialize_example_exercise a)
  have w: "window_defined browser" by (simp add: browser_def)
  show ?thesis
    using duplicate_create_rejected[OF a _ w l c, of "stored_exercise\<lparr>name := ''Squat''\<rparr>"
        "example_exercise\<lparr>name := ''Squat''\<rparr>"] example_exercise_valid
    by simp
qed

lemma getById_example: "ExerciseRepository_getById browser [stored_exercise] ''e1'' = Inr (Some example_exercise)"
  by code_simp

text \<open>
  Claim C5 as stated fails: a partial that carries a \<open>createdAt\<close> replaces the record's
  \<open>createdAt\<close>, and \<open>updatedAt\<close> becomes what the clock reads, here a time before the
  previous \<open>updatedAt\<close>.
\<close>

theorem update_changes_createdAt_counterexample:
  "ExerciseRepository_getById browser [stored_exercise] ''e1'' = Inr (Some example_exercise) \<and>
   createdAt example_exercise = Date 1704103200123 \<and>
   updatedAt example_exercise = Date 1704103200123 \<and>
   fst (ExerciseRepository_update browser 1600000000000 [stored_exercise] ''e1'' counter_partial) =
     Inr (example_exercise\<lparr>createdAt := Date 0, updatedAt := Date 1600000000000\<rparr>) \<and>
   ExerciseRepository_getById browser
     (snd (ExerciseRepository_update browser 1600000000000 [stored_exercise] ''e1'' counter_partial))
     ''e1'' =
     Inr (Some (example_exercise\<lparr>createdAt := Date 0, updatedAt := Date 1600000000000\<rparr>))"
  by code_simp

lemma Repository_getById_Some:
  "Repository_getById env sn store i = Inr (Some e) \<longleftrightarrow>
     (\<exists>ix r. transaction env sn = Inr ix \<and> find (\<lambda>r. id' r = i) store = Some r \<and> e = deserialize r)"
  by (auto simp: Repository_getById_def indexedDB_getById_def split: sum.splits option.splits)

text \<open>
  Claim C5, amended (identity stability): an update that succeeds on a stored record
  returns and stores an entity with the same \<open>id\<close>, whatever \<open>id\<close> the partial carries;
  its \<open>createdAt\<close> is the record's unless the partial carries one; its \<open>updatedAt\<close> is the
  clock's reading, whatever the partial carries, so it is at or after the previous
  \<open>updatedAt\<close> whenever the clock is; the record read back is the entity returned, and
  no other record changes.
\<close>

theorem update_identity_and_stamps:
  fixes existing :: "(Date, 'm) entity_scheme"
  assumes "Repository_getById env sn store i = Inr (Some existing)"
    and "Repository_update kind env now sn store i updates = (Inr e', store')"
  shows "id' existing = i \<and> id' e' = i \<and>
         createdAt e' = (case p_createdAt updates of None \<Rightarrow> createdAt existing | Some v \<Rightarrow> v) \<and>
         updatedAt e' = Date now \<and>
         (\<forall>t. updatedAt existing = Date t \<longrightarrow> t \<le> now \<longrightarrow>
              (\<exists>t'. updatedAt e' = Date t' \<and> t \<le> t')) \<and>
         Repository_getById env sn store' i = Inr (Some e') \<and>
         (\<forall>j. j \<noteq> i \<longrightarrow> Repository_getById env sn store' j = Repository_getById env sn store j)"
proof -
  from assms(1) obtain ix r where t: "transaction env sn = Inr ix"
    and f: "find (\<lambda>r. id' r = i) store = Some r" and ex: "existing = deserialize r"
    by (auto simp: Repository_getById_Some)
  define updated where "updated =
      \<lparr>id' = i, name = (case p_name updates of None \<Rightarrow> name existing | Some v \<Rightarrow> v),
       date = (case p_date updates of None \<Rightarrow> date existing | Some v \<Rightarrow> v),
       createdAt = (case p_createdAt updates of None \<Rightarrow> createdAt existing | Some v \<Rightarrow> v),
       updatedAt = Date now, \<dots> = p_more updates (entity.more existing)\<rparr>"
  from assms(2) obtain s where s: "serialize updated = Inr s" and e': "e' = updated"
    and st: "store' = insort_key id' s (filter (\<lambda>r. id' r \<noteq> id' s) store)"
    unfolding Repository_update_def assms(1)
    by (auto simp: Let_def indexedDB_update_def t updated_def split: sum.splits prod.splits)
  have si: "id' s = i" using serialize_id[OF s] by (simp add: updated_def)
  have i1: "id' existing = i" using find_id[OF f] by (simp add: ex deserialize_def)
  have g: "find (\<lambda>r. id' r = i) store' = Some s"
    unfolding st si by (rule find_insort_key_new) (simp_all add: si find_filter_same)
  have o: "find (\<lambda>r. id' r = j) store' = find (\<lambda>r. id' r = j) store" if "j \<noteq> i" for j
    unfolding st si using that by (simp add: find_insort_key_other si find_filter_other)
  show ?thesis
    using i1 g o t deserialize_serialize[OF s]
    by (simp add: e' updated_def Repository_getById_def indexedDB_getById_def)
qed

lemma update_example:
  "Repository_update ''Exercise'' browser 1704200000000 STORES_EXERCISES [stored_exercise] ''e1'' rename_partial =
     (Inr (example_exercise\<lparr>name := ''Incline Bench Press'', updatedAt := Date 1704200000000\<rparr>),
      [stored_exercise\<lparr>name := ''Incline Bench Press'', updatedAt := ''2024-01-02T12:53:20.000Z''\<rparr>])"
  by code_simp

theorem update_identity_and_stamps_witness:
  "id' example_exercise = ''e1'' \<and>
   id' (example_exercise\<lparr>name := ''Incline Bench Press'', updatedAt := Date 1704200000000\<rparr>) = ''e1'' \<and>
   createdAt (example_exercise\<lparr>name := ''Incline Bench Press'', updatedAt := Date 1704200000000\<rparr>) =
     createdAt example_exercise \<and>
   updatedAt (example_exercise\<lparr>name := ''Incline Bench Press'', updatedAt := Date 1704200000000\<rparr>) =
     Date 1704200000000 \<and>
   Repository_getById browser STORES_EXERCISES
     [stored_exercise\<lparr>name := ''Incline Bench Press'', updatedAt := ''2024-01-02T12:53:20.000Z''\<rparr>] ''e1'' =
     Inr (Some (example_exercise\<lparr>name := ''Incline Bench Press'', updatedAt := Date 1704200000000\<rparr>))"
  using update_identity_and_stamps[OF getById_example[unfolded ExerciseRepository_getById_def] update_example]
  by (simp add: rename_partial_def)

section \<open>Settings: reading an empty store\<close>

lemma transaction_browser_settings [simp]:
  "transaction browser STORES_SETTINGS = Inr []"
  by (simp add: transaction_def openDatabase_def browser_def schema_indexes_def
      STORES_SETTINGS_def STORES_EXERCISES_def STORES_FOODS_def)

text \<open>
  On an empty settings store \<open>get\<close> finds nothing and calls \<open>update\<close>, which starts by
  calling \<open>get\<close>, which finds nothing: neither call returns, whatever the depth allowed.
\<close>

lemma settings_calls_never_return:
  "UserSettingsRepository_get depth browser loaded now [] = None \<and>
   (\<forall>p. UserSettingsRepository_update depth browser loaded now [] p = None)"
proof (induction depth)
  case 0
  show ?case by simp
next
  case (Suc depth)
  have g: "UserSettingsRepository_get (Suc depth) browser loaded now [] = None"
    using Suc by (simp add: indexedDB_getById_def)
  have u: "UserSettingsRepository_update (Suc depth) browser loaded now [] p = None" for p
    using Suc by simp
  from g u show ?case by simp
qed

text \<open>
  Claim C1 (settings default materialization): on an empty settings store \<open>get()\<close>
  should terminate, return the default record and persist it. In the code, in a browser
  with IndexedDB, \<open>get()\<close> on the empty store does not return within any depth of calls:
  the claim's first call never completes and nothing is persisted.
\<close>

theorem get_on_empty_settings_store_never_returns:
  "UserSettingsRepository_get depth browser loaded now [] = None"
  using settings_calls_never_return by blast

section \<open>The factory and the backend\<close>

text \<open>
  Claim C3 (memoized factory bound to the detected backend): in a browser without
  IndexedDB the factory reports \<open>localstorage\<close> and a second call returns the same
  container without constructing anything, but the repositories it hands out still call
  the IndexedDB wrapper: every operation is rejected with a ReferenceError, while the
  degraded backend in the same runtime would have answered.
\<close>

theorem factory_binds_repositories_to_indexedDB:
  "storageType (fst (getRepositories browser_without_indexedDB module_loaded)) = localstorage \<and>
   getRepositories browser_without_indexedDB
     (snd (getRepositories browser_without_indexedDB module_loaded)) =
     getRepositories browser_without_indexedDB module_loaded \<and>
   ExerciseRepository_getAll browser_without_indexedDB store = Inl ReferenceError \<and>
   ExerciseRepository_create browser_without_indexedDB store
     \<lparr>id' = ''e1'', name = ''Bench Press'', date = Date 0, createdAt = Date 0,
      updatedAt = Date 0, sets = [], notes = None\<rparr> = (Inl ReferenceError, store) \<and>
   FoodRepository_getAll browser_without_indexedDB fstore = Inl ReferenceError \<and>
   UserSettingsRepository_get (Suc depth) browser_without_indexedDB loaded now sstore =
     Some (Inl ReferenceError, sstore) \<and>
   localStorage_getAll browser_without_indexedDB (Some (JSON [(k, r)])) = Inr [r]"
  by (simp add: getRepositories_def createRepositories_def module_loaded_def
      detectStorageType_def isIndexedDBAvailable_def browser_without_indexedDB_def
      createExerciseRepository_def createFoodRepository_def createUserSettingsRepository_def
      createDataExportRepository_def ExerciseRepository_getAll_def Repository_getAll_def
      indexedDB_getAll_def transaction_def openDatabase_def FoodRepository_getAll_def
      indexedDB_getById_def ExerciseRepository_create_def Repository_create_def
      serialize_def toISOString_def time_value_def maxTime_def indexedDB_add_def Let_def
      localStorage_getAll_def getStoreData_def)

section \<open>Export and import\<close>

lemma serialize_example_food: "serialize example_food = Inr stored_food"
  by code_simp

lemma deserialize_stored_exercise: "deserialize stored_exercise = example_exercise"
  using deserialize_serialize[OF serialize_example_exercise] .

lemma deserialize_stored_food: "deserialize stored_food = example_food"
  using deserialize_serialize[OF serialize_example_food] .

lemma transaction_browser:
  "transaction browser STORES_EXERCISES = Inr [''name'', ''date'']"
  "transaction browser STORES_FOODS = Inr [''date'', ''mealType'', ''name'']"
  by (simp_all add: transaction_def openDatabase_def browser_def schema_indexes_def
      STORES_EXERCISES_def STORES_FOODS_def)

lemma clearAllData_browser:
  "clearAllData browser w = (Inr (), \<lparr>EXERCISES = [], FOODS = [], SETTINGS = []\<rparr>)"
  by (simp add: clearAllData_def indexedDB_clearStore_def transaction_browser)

lemma import_example_exercises:
  "import_section browser STORES_EXERCISES [] (Array [stored_exercise]) = (Inr (), [stored_exercise])"
  by (simp add: import_section_def deserialize_stored_exercise Repository_create_def
      serialize_example_exercise indexedDB_add_def transaction_browser)

lemma import_example_foods:
  "import_section browser STORES_FOODS [] (Array [stored_food]) = (Inr (), [stored_food])"
  by (simp add: import_section_def deserialize_stored_food Repository_create_def
      serialize_example_food indexedDB_add_def transaction_browser)

lemma export_example:
  "exportData (Suc 0) browser loaded 1704200000000 example_world =
     Some (Inr example_snapshot, example_world)"
proof -
  have g: "UserSettingsRepository_get (Suc 0) browser loaded 1704200000000 (SETTINGS example_world) =
      Some (Inr example_settings, SETTINGS example_world)"
    by code_simp
  have u: "toISOString (Date 1704103200123) = Inr ''2024-01-01T10:00:00.123Z''"
    by code_simp
  have n: "toISOString (Date 1704200000000) = Inr ''2024-01-02T12:53:20.000Z''"
    by code_simp
  show ?thesis
    unfolding exportData_def g
    by (simp add: ExerciseRepository_getAll_def FoodRepository_getAll_def Repository_getAll_def
        indexedDB_getAll_def transaction_browser example_world_def deserialize_stored_exercise
        deserialize_stored_food serialize_example_exercise serialize_example_food u n
        example_snapshot_def example_settings_def stored_settings_def)
qed

text \<open>
  Claim C2 (export/import idempotence): \<open>importData(exportData())\<close> should terminate and
  leave every store as it was. In the code, the snapshot always has settings, and
  \<open>importData\<close> writes them through \<open>settingsRepo.update\<close> after clearing the settings
  store: \<open>update\<close> calls \<open>get\<close> on the empty store, and the two call each other without end.
  On the example database \<open>exportData\<close> returns the snapshot, and \<open>importData\<close> of that
  snapshot does not return within any depth of calls.
\<close>

theorem import_of_export_never_returns:
  "exportData (Suc 0) browser loaded 1704200000000 example_world =
     Some (Inr example_snapshot, example_world) \<and>
   importData depth browser loaded' now example_world example_snapshot = None"
  using export_example settings_calls_never_return[of depth loaded' now]
  by (simp add: importData_def clearAllData_browser example_snapshot_def
      import_example_exercises import_example_foods)

lemma importData_no_settings:
  assumes "settings d = None"
  shows "importData depth browser loaded now w d =
     (case import_section browser STORES_EXERCISES [] (exercises d) of
        (Inl e, s) \<Rightarrow> Some (Inl e, \<lparr>EXERCISES = s, FOODS = [], SETTINGS = []\<rparr>)
      | (Inr _, s) \<Rightarrow>
          (case import_section browser STORES_FOODS [] (foods d) of
             (Inl e, s') \<Rightarrow> Some (Inl e, \<lparr>EXERCISES = s, FOODS = s', SETTINGS = []\<rparr>)
           | (Inr _, s') \<Rightarrow> Some (Inr (), \<lparr>EXERCISES = s, FOODS = s', SETTINGS = []\<rparr>)))"
  using assms
  by (simp add: importData_def clearAllData_browser split: prod.splits sum.splits)

text \<open>
  What holds of the skipping itself: a section that is not an array is treated as the
  empty array, and a snapshot without settings never reaches the settings repository,
  so the import returns with the settings store cleared.
\<close>

lemma importData_skips_what_is_absent:
  "importData depth env loaded now w (d\<lparr>exercises := Not_an_array\<rparr>) =
     importData depth env loaded now w (d\<lparr>exercises := Array []\<rparr>) \<and>
   importData depth env loaded now w (d\<lparr>foods := Not_an_array\<rparr>) =
     importData depth env loaded now w (d\<lparr>foods := Array []\<rparr>) \<and>
   (settings d = None \<longrightarrow>
      (\<exists>r w'. importData depth browser loaded now w d = Some (r, w') \<and> SETTINGS w' = [])) \<and>
   (settings d = None \<longrightarrow> exercises d = Not_an_array \<longrightarrow> foods d = Not_an_array \<longrightarrow>
      importData depth browser loaded now w d =
        Some (Inr (), \<lparr>EXERCISES = [], FOODS = [], SETTINGS = []\<rparr>))"
proof (intro conjI impI)
  show "importData depth env loaded now w (d\<lparr>exercises := Not_an_array\<rparr>) =
     importData depth env loaded now w (d\<lparr>exercises := Array []\<rparr>)"
    by (simp add: importData_def import_section_def cong: prod.case_cong sum.case_cong)
  show "importData depth env loaded now w (d\<lparr>foods := Not_an_array\<rparr>) =
     importData depth env loaded now w (d\<lparr>foods := Array []\<rparr>)"
    by (simp add: importData_def import_section_def cong: prod.case_cong sum.case_cong)
  show "\<exists>r w'. importData depth browser loaded now w d = Some (r, w') \<and> SETTINGS w' = []"
    if "settings d = None"
    by (simp add: importData_no_settings[OF that] split: prod.splits sum.splits)
  show "importData depth browser loaded now w d =
        Some (Inr (), \<lparr>EXERCISES = [], FOODS = [], SETTINGS = []\<rparr>)"
    if "settings d = None" and "exercises d = Not_an_array" and "foods d = Not_an_array"
    using that by (simp add: importData_no_settings import_section_def)
qed

text \<open>
  Claim C10 (sections that are not arrays, absent settings): when \<open>exercises\<close> or \<open>foods\<close>
  is not an array the section should be skipped and \<open>importData\<close> should still succeed.
  The skipping is as claimed, and without settings the import succeeds with the settings
  store left cleared. But a snapshot that has settings, as every exported one has, makes
  \<open>importData\<close> call \<open>settingsRepo.update\<close> on the store it has just cleared: with both
  sections skipped, \<open>importData\<close> does not return within any depth of calls.
\<close>

theorem import_with_skipped_sections_never_returns:
  "importData depth browser loaded now w skipped_snapshot = None \<and>
   importData depth browser loaded now w (skipped_snapshot\<lparr>settings := None\<rparr>) =
     Some (Inr (), \<lparr>EXERCISES = [], FOODS = [], SETTINGS = []\<rparr>)"
  using settings_calls_never_return[of depth loaded now]
  by (simp add: importData_def clearAllData_browser skipped_snapshot_def import_section_def)

section \<open>Store text that does not parse\<close>

text \<open>
  Claim C4 as stated fails: a read on the degraded backend maps a store text that does
  not parse to the empty result.
\<close>

theorem unparseable_store_reads_as_empty_counterexample:
  "localStorage_getAll browser (Some (Unparseable ''{e1:'') :: string Exercise storage_text option)
   = Inr []"
  by (simp add: localStorage_getAll_def getStoreData_def browser_def)

text \<open>
  Claim C4, amended: on the degraded backend a serialization fault is surfaced where the
  store text parses to \<open>null\<close> (every read raises a TypeError) and swallowed where
  \<open>JSON.parse\<close> throws: \<open>getStoreData\<close> catches the exception and returns the empty
  object, so \<open>getAll\<close>, \<open>getByIndex\<close> and \<open>getByIndexRange\<close> return the empty list and
  \<open>getById\<close> returns \<open>null\<close>, or, for an identifier that names a member of
  \<open>Object.prototype\<close>, that member; no error is raised.
\<close>

theorem unparseable_text_swallowed_null_surfaced:
  "localStorage_getAll env (Some (Unparseable txt)) = Inr [] \<and>
   localStorage_getByIndex env prop (Some (Unparseable txt)) n v = Inr [] \<and>
   localStorage_getByIndexRange env prop (Some (Unparseable txt)) n lo hi = Inr [] \<and>
   localStorage_getById env (Some (Unparseable txt)) i =
     Inr (if i \<in> set Object_prototype_members then Some (Inherited i) else None) \<and>
   localStorage_getAll browser (Some JSON_null) = Inl TypeError \<and>
   localStorage_getByIndex browser prop' (Some JSON_null) n v = Inl TypeError \<and>
   localStorage_getByIndexRange browser prop' (Some JSON_null) n lo hi = Inl TypeError \<and>
   localStorage_getById browser (Some JSON_null) i = Inl TypeError"
  by (simp add: localStorage_getById_def localStorage_getAll_def localStorage_getByIndex_def
      localStorage_getByIndexRange_def getStoreData_def browser_def read_property_def)

section \<open>Date ranges\<close>





lemma time_value_Date: "- maxTime \<le> t \<Longrightarrow> t \<le> maxTime \<Longrightarrow> time_value (Date t) = Some t"
  by (simp add: time_value_def)









section \<open>The two storage wrappers side by side\<close>

















end
